theory Spec2Isabelle
  imports Main "HOL-Library.Sublist"
begin

unbundle bit_operations_syntax

section \<open>Python strings, bytes and slicing\<close>

text \<open>
  A Python \<open>str\<close> is a sequence of Unicode code points. The code points up to 0xff are
  Isabelle characters (\<open>Ch c\<close>); \<open>Wide n\<close> is the code point \<open>256 + n\<close>, so every
  value of the type is a different character. A \<open>bytes\<close> object is a \<open>char list\<close>.
\<close>

datatype pychar = Ch char | Wide nat

type_synonym pystr = "pychar list"

type_synonym pybytes = "char list"

fun ord :: "pychar \<Rightarrow> nat" where
  "ord (Ch c) = of_char c"
| "ord (Wide n) = 256 + n"

definition chr :: "nat \<Rightarrow> pychar" where
  "chr n = (if n < 256 then Ch (char_of n) else Wide (n - 256))"

definition lit :: "string \<Rightarrow> pystr" where
  "lit s = map Ch s"

text \<open>Python's \<open>s[k:]\<close> and \<open>s[:k]\<close>: a negative index counts from the end, and an
  index out of range is clamped.\<close>

definition slice_from :: "int \<Rightarrow> 'a list \<Rightarrow> 'a list" where
  "slice_from k s = (if 0 \<le> k then drop (nat k) s else drop (nat (int (length s) + k)) s)"

definition slice_to :: "int \<Rightarrow> 'a list \<Rightarrow> 'a list" where
  "slice_to k s = (if 0 \<le> k then take (nat k) s else take (nat (int (length s) + k)) s)"

text \<open>\<open>s.split(d)\<close> for a one-element separator: always at least one segment.\<close>

fun split_on :: "'a \<Rightarrow> 'a list \<Rightarrow> 'a list list" where
  "split_on d [] = [[]]"
| "split_on d (c # cs) =
     (if c = d then [] # split_on d cs
      else (case split_on d cs of [] \<Rightarrow> [[c]] | x # xs \<Rightarrow> (c # x) # xs))"

definition newline_char :: pychar where
  "newline_char = Ch (CHR 0x0A)"

definition hex_digit :: "nat \<Rightarrow> char" where
  "hex_digit n = ''0123456789abcdef'' ! n"

definition dec_digit :: "nat \<Rightarrow> char" where
  "dec_digit n = ''0123456789'' ! n"

text \<open>\<open>'%0wx' % n\<close>: lower-case hexadecimal, padded with zeros to the width \<open>w\<close>.\<close>

fun hex_digits :: "nat \<Rightarrow> string" where
  "hex_digits n = (if n < 16 then [hex_digit n] else hex_digits (n div 16) @ [hex_digit (n mod 16)])"

definition hex_pad :: "nat \<Rightarrow> nat \<Rightarrow> string" where
  "hex_pad w n = replicate (w - length (hex_digits n)) (CHR ''0'') @ hex_digits n"

fun dec_digits :: "nat \<Rightarrow> string" where
  "dec_digits n = (if n < 10 then [dec_digit n] else dec_digits (n div 10) @ [dec_digit (n mod 10)])"

declare hex_digits.simps [simp del] dec_digits.simps [simp del]

text \<open>\<open>str(n)\<close> and \<open>'%d' % n\<close> of an integer.\<close>

definition str_int :: "int \<Rightarrow> string" where
  "str_int n = (if n < 0 then CHR ''-'' # dec_digits (nat (- n)) else dec_digits (nat n))"

text \<open>
  \<open>decode_with_backslashreplace\<close>: the bytes are decoded as latin1 and encoded to ASCII
  with \<open>backslashreplace\<close>, so a byte above 127 becomes \<open>\xhh\<close>.
\<close>

definition decode_with_backslashreplace :: "pybytes \<Rightarrow> pystr" where
  "decode_with_backslashreplace s =
     concat (map (\<lambda>c. if (of_char c :: nat) < 128 then [Ch c]
                        else lit ([CHR 0x5C, CHR ''x''] @ hex_pad 2 (of_char c))) s)"

section \<open>Fragments of the result\<close>

text \<open>
  The docutils nodes the colorizer builds. \<open>Text s\<close> is \<open>nodes.Text(s)\<close>, \<open>inline c s\<close> is
  \<open>nodes.inline('', s, classes=[c])\<close>, \<open>obj_reference s r\<close> is
  \<open>obj_reference('', s, refuid=r)\<close>. The five shared nodes of the class are constructors of
  their own: the code recognises \<open>LINEWRAP\<close> by identity.
\<close>

datatype fragment =
    Text pystr
  | inline string pystr
  | obj_reference pystr pystr
  | NEWLINE
  | WORD_BREAK_OPPORTUNITY
  | LINEWRAP
  | ELLIPSIS
  | UNKNOWN_REPR

definition GROUP_TAG :: "string option" where "GROUP_TAG = None"
definition COMMA_TAG :: "string option" where "COMMA_TAG = None"
definition COLON_TAG :: "string option" where "COLON_TAG = None"
definition CONST_TAG :: "string option" where "CONST_TAG = None"
definition NUMBER_TAG :: "string option" where "NUMBER_TAG = None"
definition QUOTE_TAG :: "string option" where "QUOTE_TAG = Some ''variable-quote''"
definition STRING_TAG :: "string option" where "STRING_TAG = Some ''variable-string''"
definition LINK_TAG :: "string option" where "LINK_TAG = Some ''variable-link''"
definition ELLIPSIS_TAG :: "string option" where "ELLIPSIS_TAG = Some ''variable-ellipsis''"
definition LINEWRAP_TAG :: "string option" where "LINEWRAP_TAG = Some ''variable-linewrap''"
definition UNKNOWN_TAG :: "string option" where "UNKNOWN_TAG = Some ''variable-unknown''"
definition RE_CHAR_TAG :: "string option" where "RE_CHAR_TAG = None"
definition RE_GROUP_TAG :: "string option" where "RE_GROUP_TAG = Some ''re-group''"
definition RE_REF_TAG :: "string option" where "RE_REF_TAG = Some ''re-ref''"
definition RE_OP_TAG :: "string option" where "RE_OP_TAG = Some ''re-op''"
definition RE_FLAGS_TAG :: "string option" where "RE_FLAGS_TAG = Some ''re-flags''"

text \<open>The text of a node (\<open>astext\<close>); the line-wrap marker holds \<open>chr(8629)\<close>.\<close>

fun astext :: "fragment \<Rightarrow> pystr" where
  "astext (Text s) = s"
| "astext (inline c s) = s"
| "astext (obj_reference s r) = s"
| "astext NEWLINE = []"
| "astext WORD_BREAK_OPPORTUNITY = []"
| "astext LINEWRAP = [chr 8629]"
| "astext ELLIPSIS = lit ''...''"
| "astext UNKNOWN_REPR = lit ''??''"

section \<open>The colorizer's state\<close>

record MarkedColorizerState =
  mark_length :: nat
  mark_charpos :: int
  mark_lineno :: int
  mark_linebreakok :: bool
  mark_score :: int

record ColorizerState =
  result :: "fragment list"
  charpos :: int
  lineno :: int
  linebreakok :: bool
  score :: int

definition init_state :: ColorizerState where
  "init_state = \<lparr>result = [], charpos = 0, lineno = 1, linebreakok = True, score = 0\<rparr>"

definition mark :: "ColorizerState \<Rightarrow> MarkedColorizerState" where
  "mark state = \<lparr>mark_length = length (result state), mark_charpos = charpos state,
     mark_lineno = lineno state, mark_linebreakok = linebreakok state, mark_score = score state\<rparr>"

definition restore :: "ColorizerState \<Rightarrow> MarkedColorizerState \<Rightarrow> ColorizerState" where
  "restore state m = \<lparr>result = take (mark_length m) (result state), charpos = mark_charpos m,
     lineno = mark_lineno m, linebreakok = mark_linebreakok m, score = mark_score m\<rparr>"

text \<open>
  The exceptions the module raises or lets through. A function of the colorizer mutates
  the state in place, so the state at the raise is part of the outcome: the handlers of
  \<open>_multiline\<close> and \<open>colorize\<close> go on from it.
\<close>

datatype exn = Maxlines | Linebreak | TypeError | ValueError | re_error | RuntimeError
  | IndexError | KeyboardInterrupt | OtherException

datatype outcome = Done ColorizerState | Raised exn ColorizerState

fun state_of :: "outcome \<Rightarrow> ColorizerState" where
  "state_of (Done s) = s"
| "state_of (Raised e s) = s"

text \<open>Sequencing of two steps on the state: an exception of the first skips the second.\<close>

fun and_then :: "outcome \<Rightarrow> (ColorizerState \<Rightarrow> outcome) \<Rightarrow> outcome" where
  "and_then (Done s) f = f s"
| "and_then (Raised e s) f = Raised e s"

lemma and_then_cong [fundef_cong]:
  "m = m' \<Longrightarrow> (\<And>s. m' = Done s \<Longrightarrow> f s = f' s) \<Longrightarrow> and_then m f = and_then m' f'"
  by (cases m') auto

text \<open>\<open>state.result.append(node)\<close>, as the code does outside of \<open>_output\<close>.\<close>

definition append_node :: "fragment \<Rightarrow> ColorizerState \<Rightarrow> ColorizerState" where
  "append_node n state = state\<lparr>result := result state @ [n]\<rparr>"

section \<open>The output function\<close>

record PyvalColorizer =
  linelen :: "int option"
  maxlines :: int
  self_linebreakok :: bool

definition make_element :: "string option \<Rightarrow> bool \<Rightarrow> pystr \<Rightarrow> fragment" where
  "make_element css_class link segment =
     (if link then obj_reference segment segment
      else (case css_class of Some c \<Rightarrow> inline c segment | None \<Rightarrow> Text segment))"

text \<open>
  The steps of one round of the loop of \<open>_output\<close>, on the state: the newline before a
  segment that is not the first; the test that the segment goes on the current line; the
  segment appended whole; the place of the split; the first part appended with the
  line-wrap marker.
\<close>

definition start_line :: "nat \<Rightarrow> ColorizerState \<Rightarrow> ColorizerState" where
  "start_line i state =
     (if i > 0
      then state\<lparr>result := result state @ [NEWLINE], lineno := lineno state + 1, charpos := 0\<rparr>
      else state)"

definition fits :: "PyvalColorizer \<Rightarrow> bool \<Rightarrow> ColorizerState \<Rightarrow> pystr \<Rightarrow> bool" where
  "fits self link state segment =
     ((case linelen self of None \<Rightarrow> True
       | Some w \<Rightarrow> charpos state + int (length segment) \<le> w) \<or> link)"

definition emit :: "string option \<Rightarrow> bool \<Rightarrow> pystr \<Rightarrow> ColorizerState \<Rightarrow> ColorizerState" where
  "emit css_class link segment state =
     state\<lparr>charpos := charpos state + int (length segment),
            result := result state @ [make_element css_class link segment]\<rparr>"

definition split_point :: "PyvalColorizer \<Rightarrow> ColorizerState \<Rightarrow> int" where
  "split_point self state = (case linelen self of None \<Rightarrow> 0 | Some w \<Rightarrow> w - charpos state)"

definition wrap :: "string option \<Rightarrow> pystr \<Rightarrow> ColorizerState \<Rightarrow> ColorizerState" where
  "wrap css_class segment state =
     state\<lparr>result := result state @ [make_element css_class False segment, LINEWRAP]\<rparr>"

text \<open>
  The loop of \<open>_output\<close> over \<open>enumerate(segments)\<close>; \<open>i\<close> is the index and the list holds
  the segments from \<open>i\<close> on. The line-wrap branch inserts the rest of the segment at
  \<open>i+1\<close>, which the iterator reads next; it leaves the column as it is.
\<close>

function output_loop ::
  "PyvalColorizer \<Rightarrow> string option \<Rightarrow> bool \<Rightarrow> nat \<Rightarrow> pystr list \<Rightarrow> ColorizerState \<Rightarrow> outcome"
where
  "output_loop self css_class link i [] state = Done state"
| "output_loop self css_class link i (segment # segments) state =
     (if i > 0 \<and> lineno state + 1 > maxlines self then Raised Maxlines state
      else if i > 0 \<and> \<not> linebreakok state then Raised Linebreak state
      else if fits self link (start_line i state) segment
        then output_loop self css_class link (Suc i) segments
               (emit css_class link segment (start_line i state))
        else output_loop self css_class link (Suc i)
               (slice_from (split_point self (start_line i state)) segment # segments)
               (wrap css_class (slice_to (split_point self (start_line i state)) segment)
                  (start_line i state)))"
  by pat_completeness auto
termination
  by (relation "measure (\<lambda>(self, css_class, link, i, segments, state).
        nat (maxlines self - lineno state) + (if i = 0 then 1 else 0))")
     (auto simp: start_line_def emit_def wrap_def split: if_splits)

declare output_loop.simps(2) [simp del]

definition "output" :: "PyvalColorizer \<Rightarrow> pystr \<Rightarrow> string option \<Rightarrow> bool \<Rightarrow> ColorizerState \<Rightarrow> outcome" where
  "output self s css_class link state = output_loop self css_class link 0 (split_on newline_char s) state"

definition output_bytes :: "PyvalColorizer \<Rightarrow> pybytes \<Rightarrow> string option \<Rightarrow> bool \<Rightarrow> ColorizerState \<Rightarrow> outcome" where
  "output_bytes self s css_class link state = output self (decode_with_backslashreplace s) css_class link state"


section \<open>Trimming the result\<close>

text \<open>
  The text children of a node. \<open>TextElement.__init__\<close> adds a \<open>Text\<close> child only for a
  text that is not empty, and the word-break and newline nodes are built without text.
\<close>

fun children :: "fragment \<Rightarrow> pystr list" where
  "children (Text s) = []"
| "children (inline c s) = (if s = [] then [] else [s])"
| "children (obj_reference s r) = (if s = [] then [] else [s])"
| "children NEWLINE = []"
| "children WORD_BREAK_OPPORTUNITY = []"
| "children LINEWRAP = [[chr 8629]]"
| "children ELLIPSIS = [lit ''...'']"
| "children UNKNOWN_REPR = [lit ''??'']"

text \<open>\<open>node[-1] = nodes.Text(t)\<close> on an element with one child. On one of the class's
  shared nodes the assignment changes that node; here the changed node is a node of its
  own with the same class.\<close>

fun set_last_child :: "fragment \<Rightarrow> pystr \<Rightarrow> fragment" where
  "set_last_child (Text s) t = Text t"
| "set_last_child (inline c s) t = inline c t"
| "set_last_child (obj_reference s r) t = obj_reference t r"
| "set_last_child NEWLINE t = NEWLINE"
| "set_last_child WORD_BREAK_OPPORTUNITY t = WORD_BREAK_OPPORTUNITY"
| "set_last_child LINEWRAP t = inline ''variable-linewrap'' t"
| "set_last_child ELLIPSIS t = inline ''variable-ellipsis'' t"
| "set_last_child UNKNOWN_REPR t = inline ''variable-unknown'' t"

fun is_Text :: "fragment \<Rightarrow> bool" where
  "is_Text (Text s) = True"
| "is_Text n = False"

text \<open>
  \<open>_trim_result\<close>: the \<open>while num_chars > 0\<close> loop. No node of the colorizer has more
  than one child, so the branch that pops a child of a node with several is the same as
  popping the node.
\<close>

function trim_result :: "fragment list \<Rightarrow> int \<Rightarrow> fragment list" where
  "trim_result res num_chars =
     (if num_chars > 0 then
        (if res = [] then res
         else if \<not> is_Text (last res) then
           (if length (children (last res)) \<ge> 1 then
              (let data = last (children (last res));
                   trim = min num_chars (int (length data));
                   data' = slice_to (- trim) data
               in if data' = [] then trim_result (butlast res) (num_chars - trim)
                  else trim_result (butlast res @ [set_last_child (last res) data']) (num_chars - trim))
            else trim_result (butlast res) (num_chars - 0))
         else
           (let trim = min num_chars (int (length (astext (last res))));
                data' = slice_to (- trim) (astext (last res))
            in if data' = [] then trim_result (butlast res) (num_chars - trim)
               else trim_result (butlast res @ [Text data']) (num_chars - trim)))
      else res)"
  by pat_completeness auto
termination
  apply (relation "measure (\<lambda>(res, num_chars). length res + nat num_chars)")
      apply (auto simp: slice_to_def Let_def min_def split: if_splits)
   apply (case_tac [!] res)
     apply auto
  done

declare trim_result.simps [simp del]

section \<open>Strings\<close>

text \<open>
  \<open>c.encode('unicode-escape').decode('utf-8')\<close> for a character up to 0xff: the backslash
  is doubled, tab, newline and carriage return get their letter, every other character
  below the space or from 0x7f on is written \<open>\xhh\<close>.
\<close>

definition unicode_escape :: "char \<Rightarrow> string" where
  "unicode_escape c =
     (if c = CHR 0x5C then [CHR 0x5C, CHR 0x5C]
      else if c = CHR 0x09 then [CHR 0x5C, CHR ''t'']
      else if c = CHR 0x0A then [CHR 0x5C, CHR ''n'']
      else if c = CHR 0x0D then [CHR 0x5C, CHR ''r'']
      else if (of_char c :: nat) < 32 \<or> (of_char c :: nat) \<ge> 127
        then [CHR 0x5C, CHR ''x''] @ hex_pad 2 (of_char c)
      else [c])"

fun enc :: "pychar \<Rightarrow> pystr" where
  "enc (Ch c) = (if c = CHR 0x27 then lit [CHR 0x5C, CHR 0x27] else lit (unicode_escape c))"
| "enc (Wide n) = [Wide n]"

definition str_escape :: "pystr \<Rightarrow> pystr" where
  "str_escape s = concat (map enc s)"

text \<open>
  \<open>repr(b)[2:-1]\<close>: \<open>repr\<close> of a bytes object quotes with \<open>"\<close> when the bytes hold a
  \<open>'\<close> and no \<open>"\<close>, and with \<open>'\<close> otherwise; it escapes the quote it uses.
\<close>

definition bytes_repr_quote :: "pybytes \<Rightarrow> char" where
  "bytes_repr_quote b = (if CHR 0x27 \<in> set b \<and> CHR 0x22 \<notin> set b then CHR 0x22 else CHR 0x27)"

definition bytes_repr_char :: "char \<Rightarrow> char \<Rightarrow> string" where
  "bytes_repr_char q c =
     (if c = q \<or> c = CHR 0x5C then [CHR 0x5C, c]
      else if c = CHR 0x09 then [CHR 0x5C, CHR ''t'']
      else if c = CHR 0x0A then [CHR 0x5C, CHR ''n'']
      else if c = CHR 0x0D then [CHR 0x5C, CHR ''r'']
      else if (of_char c :: nat) < 32 \<or> (of_char c :: nat) \<ge> 127
        then [CHR 0x5C, CHR ''x''] @ hex_pad 2 (of_char c)
      else [c])"

definition bytes_escape :: "pybytes \<Rightarrow> pystr" where
  "bytes_escape b = lit (concat (map (bytes_repr_char (bytes_repr_quote b)) b))"

text \<open>
  \<open>_colorize_str\<close>, for \<open>str\<close> and for \<open>bytes\<close>: \<open>nl\<close> is \<open>str_func('\n')\<close>, the prefix is
  given as the text \<open>_output\<close> makes of it.
\<close>

fun colorize_str_lines ::
  "PyvalColorizer \<Rightarrow> ('a list \<Rightarrow> pystr) \<Rightarrow> nat \<Rightarrow> 'a list list \<Rightarrow> ColorizerState \<Rightarrow> outcome"
where
  "colorize_str_lines self escape_fcn i [] state = Done state"
| "colorize_str_lines self escape_fcn i (line # lines) state =
     and_then (if i > 0 then output self [newline_char] None False state else Done state)
       (\<lambda>state. and_then (output self (escape_fcn line) STRING_TAG False state)
          (colorize_str_lines self escape_fcn (Suc i) lines))"

definition colorize_str ::
  "PyvalColorizer \<Rightarrow> 'a list \<Rightarrow> ColorizerState \<Rightarrow> pystr \<Rightarrow> ('a list \<Rightarrow> pystr) \<Rightarrow> 'a \<Rightarrow> outcome"
where
  "colorize_str self pyval state prefix' escape_fcn nl =
     (let quote = (if nl \<in> set pyval \<and> linebreakok state
                   then lit [CHR 0x27, CHR 0x27, CHR 0x27] else lit [CHR 0x27]);
          lines = (if linebreakok state then split_on nl pyval else [pyval])
      in and_then (output self (prefix' @ quote) QUOTE_TAG False state)
           (\<lambda>state. and_then (colorize_str_lines self escape_fcn 0 lines state)
              (output self quote QUOTE_TAG False)))"

section \<open>Containers\<close>

definition insert_comma :: "PyvalColorizer \<Rightarrow> int \<Rightarrow> ColorizerState \<Rightarrow> outcome" where
  "insert_comma self indent state =
     (if linebreakok state
      then and_then (output self (lit '','') COMMA_TAG False state)
             (output self (newline_char # replicate (nat indent) (Ch (CHR '' ''))) None False)
      else output self (lit '', '') COMMA_TAG False state)"

text \<open>
  \<open>_multiline\<close>: \<open>func\<close> stands for \<open>func(pyval, state, **kwargs)\<close>, a function of the
  state alone. Only \<open>_Linebreak\<close> is handled; after the first run without exception the
  caller's flag is put back.
\<close>

definition multiline :: "(ColorizerState \<Rightarrow> outcome) \<Rightarrow> ColorizerState \<Rightarrow> outcome" where
  "multiline func state =
     (let linebreakok' = linebreakok state; m = mark state in
      case func (state\<lparr>linebreakok := False\<rparr>) of
        Done state' \<Rightarrow> Done (state'\<lparr>linebreakok := linebreakok'\<rparr>)
      | Raised e state' \<Rightarrow>
          if e = Linebreak then
            (if \<not> linebreakok' then Raised Linebreak state'
             else func (restore state' m))
          else Raised e state')"

lemma multiline_cong [fundef_cong]:
  assumes "\<And>s. f s = g s" and "state = state'"
  shows "multiline f state = multiline g state'"
proof -
  have "f = g" using assms(1) by (rule ext)
  with assms(2) show ?thesis by simp
qed


section \<open>Values and syntax trees\<close>

text \<open>
  A float or a complex number, as far as the colorizer reads it: its \<open>str()\<close>, and whether
  it compares equal to \<open>False\<close> (it is zero) or to \<open>True\<close> (it is one).
\<close>

datatype inexact = Inexact (num_str: pystr) (is_zero: bool) (is_one: bool)

datatype pattern_src = StrPattern pystr | BytesPattern pybytes

datatype unaryop = USub | UAdd | Not' | Invert

datatype operator = Sub | Add | Mult | Div | FloorDiv | Mod | Pow' | LShift | RShift
  | BitOr | BitXor | BitAnd | MatMult | OtherOperator

datatype boolop = And | Or

text \<open>
  The values \<open>_colorize\<close> is called on. Python is untyped, so the fields of a syntax-tree
  node hold values: \<open>_colorize\<close> is called on operands, elements and keys, and \<open>_colorize_ast\<close>
  on the others.

  \<^item> \<open>PSet\<close>, \<open>PFrozenset\<close> and \<open>PDict\<close> hold their elements in iteration order.
  \<^item> \<open>PPattern p flags\<close> is a compiled \<open>re.Pattern\<close> with its \<open>pattern\<close> and \<open>flags\<close>.
  \<^item> \<open>PObject r\<close> is an object of any other type; \<open>r\<close> is what \<open>repr()\<close> of it does. Its
    \<open>__eq__\<close> is the default one, so it is equal to none of the built-in constants.
  \<^item> \<open>Constant v\<close> is any of \<open>ast.Num\<close>, \<open>ast.Str\<close>, \<open>ast.Bytes\<close>, \<open>ast.Constant\<close>,
    \<open>ast.NameConstant\<close> and \<open>ast.Ellipsis\<close> (with \<open>v = PEllipsis\<close>): they differ in the name
    of the field \<open>_get_ast_constant_val\<close> reads.
  \<^item> \<open>Slice\<close>, \<open>ExtSlice\<close> and \<open>OtherAST\<close> (the class name and the fields) are the nodes the
    colorizer hands to \<open>astor.to_source\<close>.
\<close>

datatype pyval =
    PNone
  | PBool bool
  | PNotImplemented
  | PEllipsis
  | PInt int
  | PFloat inexact
  | PComplex inexact
  | PStr pystr
  | PBytes pybytes
  | PTuple "pyval list"
  | PSet "pyval list"
  | PFrozenset "pyval list"
  | PDict "(pyval \<times> pyval) list"
  | PList "pyval list"
  | PPattern pattern_src int
  | PObject "exn + pystr"
  | Constant pyval
  | UnaryOp unaryop pyval
  | BinOp pyval operator pyval
  | BoolOp boolop "pyval list"
  | List "pyval list"
  | Tuple "pyval list"
  | Set "pyval list"
  | Dict "pyval list" "pyval list"
  | Name pystr
  | Attribute pyval pystr
  | Subscript pyval pyval
  | Index pyval
  | Slice "pyval list"
  | ExtSlice "pyval list"
  | Call pyval "pyval list" "pyval list"
  | Starred pyval
  | keyword "pystr option" pyval
  | OtherAST string "pyval list"

fun is_ast :: "pyval \<Rightarrow> bool" where
  "is_ast (Constant v) = True"
| "is_ast (UnaryOp op v) = True"
| "is_ast (BinOp l op r) = True"
| "is_ast (BoolOp op vs) = True"
| "is_ast (List es) = True"
| "is_ast (Tuple es) = True"
| "is_ast (Set es) = True"
| "is_ast (Dict ks vs) = True"
| "is_ast (Name n) = True"
| "is_ast (Attribute v a) = True"
| "is_ast (Subscript v s) = True"
| "is_ast (Index v) = True"
| "is_ast (Slice fs) = True"
| "is_ast (ExtSlice fs) = True"
| "is_ast (Call f as ks) = True"
| "is_ast (Starred v) = True"
| "is_ast (keyword a v) = True"
| "is_ast (OtherAST c fs) = True"
| "is_ast v = False"

text \<open>\<open>pyval in (False, True, None, NotImplemented)\<close>: the membership test of a tuple
  compares with \<open>==\<close>, and a number is equal to \<open>False\<close> when it is zero and to \<open>True\<close>
  when it is one.\<close>

fun in_builtin_constants :: "pyval \<Rightarrow> bool" where
  "in_builtin_constants PNone = True"
| "in_builtin_constants (PBool b) = True"
| "in_builtin_constants PNotImplemented = True"
| "in_builtin_constants (PInt n) = (n = 0 \<or> n = 1)"
| "in_builtin_constants (PFloat x) = (is_zero x \<or> is_one x)"
| "in_builtin_constants (PComplex x) = (is_zero x \<or> is_one x)"
| "in_builtin_constants v = False"

text \<open>\<open>str(pyval)\<close> of the constants and the numbers.\<close>

fun str_of :: "pyval \<Rightarrow> pystr" where
  "str_of PNone = lit ''None''"
| "str_of (PBool b) = (if b then lit ''True'' else lit ''False'')"
| "str_of PNotImplemented = lit ''NotImplemented''"
| "str_of (PInt n) = lit (str_int n)"
| "str_of (PFloat x) = num_str x"
| "str_of (PComplex x) = num_str x"
| "str_of v = []"

section \<open>Regular expressions\<close>

datatype category = CATEGORY_DIGIT | CATEGORY_NOT_DIGIT | CATEGORY_SPACE | CATEGORY_NOT_SPACE
  | CATEGORY_WORD | CATEGORY_NOT_WORD | OTHER_CATEGORY string

datatype position = AT_BEGINNING_STRING | AT_BEGINNING | AT_END | AT_BOUNDARY
  | AT_NON_BOUNDARY | AT_END_STRING | OTHER_AT string

text \<open>
  The elements \<open>(op, args)\<close> of a parsed pattern, as \<open>sre_parse\<close> builds them.
  \<open>BRANCH a items\<close> has \<open>args = (a, items)\<close>; \<open>MAX_REPEAT lo hi t\<close> has
  \<open>args = (lo, hi, t)\<close>; \<open>SUBPATTERN g t\<close> keeps \<open>args[0]\<close> and \<open>args[3]\<close>, the group and
  the items; \<open>ASSERT d t\<close> has \<open>args = (d, t)\<close>. \<open>OTHER_OP\<close> is any other opcode (such as
  \<open>GROUPREF_EXISTS\<close>), with its name.
\<close>

datatype re_elem =
    LITERAL nat
  | NOT_LITERAL nat
  | ANY
  | BRANCH "nat option" "re_elem list list"
  | IN "re_elem list"
  | CATEGORY category
  | AT position
  | MAX_REPEAT nat nat "re_elem list"
  | MIN_REPEAT nat nat "re_elem list"
  | SUBPATTERN "nat option" "re_elem list"
  | GROUPREF nat
  | RANGE nat nat
  | NEGATE
  | ASSERT int "re_elem list"
  | ASSERT_NOT int "re_elem list"
  | OTHER_OP string

text \<open>\<open>sre_constants.MAXREPEAT\<close>, the largest value of a 32-bit code.\<close>

definition MAXREPEAT :: nat where
  "MAXREPEAT = 4294967295"

text \<open>
  What the module takes from outside the repository:
  \<^item> \<open>sre_parse p flags\<close> is \<open>sre_parse.parse(p, flags)\<close> of the standard library: it
    raises, or returns \<open>tree.data\<close> and the items of \<open>tree.state.groupdict\<close>;
  \<^item> \<open>to_source node\<close> is \<open>astor.to_source(node)\<close>, which raises or returns the source.
\<close>

record host =
  sre_parse :: "pystr \<Rightarrow> int \<Rightarrow> exn + (re_elem list \<times> (pystr \<times> nat) list)"
  to_source :: "pyval \<Rightarrow> exn + pystr"

definition special_chars :: string where
  "special_chars = ''.^$'' @ [CHR 0x5C] @ ''*+?{}[]|()'' @ [CHR 0x27]"

text \<open>The text \<open>_output\<close> is given for \<open>(LITERAL, n)\<close>.\<close>

definition re_literal_text :: "nat \<Rightarrow> pystr" where
  "re_literal_text n =
     (let c = chr n in
      if c \<in> set (lit special_chars) then decode_with_backslashreplace (CHR 0x5C # [char_of n])
      else if c = Ch (CHR 0x09) then lit [CHR 0x5C, CHR ''t'']
      else if c = Ch (CHR 0x0D) then lit [CHR 0x5C, CHR ''r'']
      else if c = Ch (CHR 0x0A) then lit [CHR 0x5C, CHR ''n'']
      else if c = Ch (CHR 0x0C) then lit [CHR 0x5C, CHR ''f'']
      else if c = Ch (CHR 0x0B) then lit [CHR 0x5C, CHR ''v'']
      else if ord c > 0xffff then lit ([CHR 0x5C, CHR ''U''] @ hex_pad 8 (ord c))
      else if ord c > 0xff then lit ([CHR 0x5C, CHR ''u''] @ hex_pad 4 (ord c))
      else if ord c < 32 \<or> ord c \<ge> 127 then lit ([CHR 0x5C, CHR ''x''] @ hex_pad 2 (ord c))
      else [c])"

definition colorize_re_literal :: "PyvalColorizer \<Rightarrow> nat \<Rightarrow> ColorizerState \<Rightarrow> outcome" where
  "colorize_re_literal self n state = output self (re_literal_text n) RE_CHAR_TAG False state"

definition category_text :: "category \<Rightarrow> string option" where
  "category_text c =
     (case c of CATEGORY_DIGIT \<Rightarrow> Some [CHR 0x5C, CHR ''d'']
      | CATEGORY_NOT_DIGIT \<Rightarrow> Some [CHR 0x5C, CHR ''D'']
      | CATEGORY_SPACE \<Rightarrow> Some [CHR 0x5C, CHR ''s'']
      | CATEGORY_NOT_SPACE \<Rightarrow> Some [CHR 0x5C, CHR ''S'']
      | CATEGORY_WORD \<Rightarrow> Some [CHR 0x5C, CHR ''w'']
      | CATEGORY_NOT_WORD \<Rightarrow> Some [CHR 0x5C, CHR ''W'']
      | OTHER_CATEGORY n \<Rightarrow> None)"

definition position_text :: "position \<Rightarrow> string option" where
  "position_text p =
     (case p of AT_BEGINNING_STRING \<Rightarrow> Some [CHR 0x5C, CHR ''A'']
      | AT_BEGINNING \<Rightarrow> Some ''^''
      | AT_END \<Rightarrow> Some ''$''
      | AT_BOUNDARY \<Rightarrow> Some [CHR 0x5C, CHR ''b'']
      | AT_NON_BOUNDARY \<Rightarrow> Some [CHR 0x5C, CHR ''B'']
      | AT_END_STRING \<Rightarrow> Some [CHR 0x5C, CHR ''Z'']
      | OTHER_AT n \<Rightarrow> None)"

text \<open>The quantifier of \<open>MAX_REPEAT\<close> and \<open>MIN_REPEAT\<close>; \<open>lazy\<close> is \<open>op == MIN_REPEAT\<close>.\<close>

definition repeat_text :: "nat \<Rightarrow> nat \<Rightarrow> bool \<Rightarrow> string" where
  "repeat_text minrpt maxrpt lazy =
     (if maxrpt = MAXREPEAT then
        (if minrpt = 0 then ''*''
         else if minrpt = 1 then ''+''
         else ''{'' @ dec_digits minrpt @ '',}'')
      else if minrpt = 0 then
        (if maxrpt = 1 then ''?'' else ''{,'' @ dec_digits maxrpt @ ''}'')
      else if minrpt = maxrpt then ''{'' @ dec_digits maxrpt @ ''}''
      else ''{'' @ dec_digits minrpt @ '','' @ dec_digits maxrpt @ ''}'')
     @ (if lazy then ''?'' else [])"

fun is_CATEGORY :: "re_elem \<Rightarrow> bool" where
  "is_CATEGORY (CATEGORY c) = True"
| "is_CATEGORY e = False"

text \<open>
  \<open>_colorize_re_tree\<close>. \<open>colorize_re_elts\<close> is its \<open>for elt in tree\<close> loop,
  \<open>colorize_re_elt\<close> the body of the loop, \<open>colorize_re_branch\<close> the loop over the
  alternatives of a \<open>BRANCH\<close>. \<open>groups\<close> is the dictionary from group numbers to names, as
  an association list. The values built with \<open>b(...)\<close> are bytes, which \<open>_output\<close> decodes.

  For \<open>RANGE\<close> and \<open>NOT_LITERAL\<close> the code calls \<open>_colorize_re_tree\<close> on the one-element
  tree \<open>((LITERAL, n),)\<close> with \<open>noparen\<close> false, which is \<open>colorize_re_literal\<close> (lemma
  \<open>colorize_re_tree_literal\<close>). A group \<open>args[0]\<close> is \<open>None\<close> or a number, so the last
  branch of \<open>SUBPATTERN\<close> (a group that is neither) has no value to run on.
\<close>

function (sequential) colorize_re_tree ::
    "PyvalColorizer \<Rightarrow> re_elem list \<Rightarrow> ColorizerState \<Rightarrow> bool \<Rightarrow> (nat \<times> pystr) list \<Rightarrow> outcome"
  and colorize_re_elts ::
    "PyvalColorizer \<Rightarrow> re_elem list \<Rightarrow> ColorizerState \<Rightarrow> (nat \<times> pystr) list \<Rightarrow> outcome"
  and colorize_re_elt ::
    "PyvalColorizer \<Rightarrow> re_elem \<Rightarrow> ColorizerState \<Rightarrow> (nat \<times> pystr) list \<Rightarrow> outcome"
  and colorize_re_branch ::
    "PyvalColorizer \<Rightarrow> nat \<Rightarrow> re_elem list list \<Rightarrow> ColorizerState \<Rightarrow> (nat \<times> pystr) list \<Rightarrow> outcome"
where
  "colorize_re_tree self tree state noparen groups =
     and_then (if length tree > 1 \<and> \<not> noparen
               then output self (lit ''('') RE_GROUP_TAG False state else Done state)
       (\<lambda>state. and_then (colorize_re_elts self tree state groups)
          (\<lambda>state. if length tree > 1 \<and> \<not> noparen
                    then output_bytes self '')'' RE_GROUP_TAG False state else Done state))"
| "colorize_re_elts self [] state groups = Done state"
| "colorize_re_elts self (elt # elts) state groups =
     and_then (colorize_re_elt self elt state groups)
       (\<lambda>state. colorize_re_elts self elts state groups)"
| "colorize_re_elt self (LITERAL n) state groups = colorize_re_literal self n state"
| "colorize_re_elt self ANY state groups = output self (lit ''.'') RE_CHAR_TAG False state"
| "colorize_re_elt self (BRANCH a items) state groups =
     (if a \<noteq> None then Raised ValueError state
      else colorize_re_branch self 0 items state groups)"
| "colorize_re_elt self (IN args) state groups =
     (if length args = 1 \<and> is_CATEGORY (hd args)
      then colorize_re_tree self args state False groups
      else and_then (output self (lit ''['') RE_GROUP_TAG False state)
             (\<lambda>state. and_then (colorize_re_tree self args state True groups)
                (output self (lit '']'') RE_GROUP_TAG False)))"
| "colorize_re_elt self (CATEGORY c) state groups =
     (case category_text c of
        None \<Rightarrow> Raised ValueError state
      | Some val \<Rightarrow> output_bytes self val RE_CHAR_TAG False state)"
| "colorize_re_elt self (AT p) state groups =
     (case position_text p of
        None \<Rightarrow> Raised ValueError state
      | Some val \<Rightarrow> output_bytes self val RE_CHAR_TAG False state)"
| "colorize_re_elt self (MAX_REPEAT minrpt maxrpt t) state groups =
     and_then (colorize_re_tree self t state False groups)
       (output_bytes self (repeat_text minrpt maxrpt False) RE_OP_TAG False)"
| "colorize_re_elt self (MIN_REPEAT minrpt maxrpt t) state groups =
     and_then (colorize_re_tree self t state False groups)
       (output_bytes self (repeat_text minrpt maxrpt True) RE_OP_TAG False)"
| "colorize_re_elt self (SUBPATTERN g t) state groups =
     and_then
       (case g of
          None \<Rightarrow> output_bytes self ''(?:'' RE_GROUP_TAG False state
        | Some n \<Rightarrow>
            (case map_of groups n of
               Some name \<Rightarrow>
                 and_then (output_bytes self ''(?P<'' RE_GROUP_TAG False state)
                   (\<lambda>state. and_then (output self name RE_REF_TAG False state)
                      (output_bytes self ''>'' RE_GROUP_TAG False))
             | None \<Rightarrow> output_bytes self ''('' RE_GROUP_TAG False state))
       (\<lambda>state. and_then (colorize_re_tree self t state True groups)
          (output_bytes self '')'' RE_GROUP_TAG False))"
| "colorize_re_elt self (GROUPREF n) state groups =
     output_bytes self (CHR 0x5C # dec_digits n) RE_REF_TAG False state"
| "colorize_re_elt self (RANGE lo hi) state groups =
     and_then (colorize_re_literal self lo state)
       (\<lambda>state. and_then (output_bytes self ''-'' RE_OP_TAG False state)
          (colorize_re_literal self hi))"
| "colorize_re_elt self NEGATE state groups = output_bytes self ''^'' RE_OP_TAG False state"
| "colorize_re_elt self (ASSERT d t) state groups =
     and_then (if d > 0 then output_bytes self ''(?='' RE_GROUP_TAG False state
               else output_bytes self ''(?<='' RE_GROUP_TAG False state)
       (\<lambda>state. and_then (colorize_re_tree self t state True groups)
          (output_bytes self '')'' RE_GROUP_TAG False))"
| "colorize_re_elt self (ASSERT_NOT d t) state groups =
     and_then (if d > 0 then output_bytes self ''(?!'' RE_GROUP_TAG False state
               else output_bytes self ''(?<!'' RE_GROUP_TAG False state)
       (\<lambda>state. and_then (colorize_re_tree self t state True groups)
          (output_bytes self '')'' RE_GROUP_TAG False))"
| "colorize_re_elt self (NOT_LITERAL n) state groups =
     and_then (output_bytes self ''[^'' RE_GROUP_TAG False state)
       (\<lambda>state. and_then (colorize_re_literal self n state)
          (output_bytes self '']'' RE_GROUP_TAG False))"
| "colorize_re_elt self (OTHER_OP n) state groups = Raised RuntimeError state"
| "colorize_re_branch self i [] state groups = Done state"
| "colorize_re_branch self i (item # items) state groups =
     and_then (if i > 0 then output self (lit ''|'') RE_OP_TAG False state else Done state)
       (\<lambda>state. and_then (colorize_re_tree self item state True groups)
          (\<lambda>state. colorize_re_branch self (Suc i) items state groups))"
  by pat_completeness auto
termination
  by (relation "measure (\<lambda>x. case x of
        Inl (Inl (self, tree, state, noparen, groups)) \<Rightarrow> 2 * size_list size tree + 2
      | Inl (Inr (self, elts, state, groups)) \<Rightarrow> 2 * size_list size elts + 1
      | Inr (Inl (self, elt, state, groups)) \<Rightarrow> 2 * size elt + 1
      | Inr (Inr (self, i, items, state, groups)) \<Rightarrow> 2 * size_list (size_list size) items + 1)")
     auto

declare colorize_re_tree.simps [simp del]

text \<open>
  \<open>bytes.decode()\<close>: strict UTF-8, which refuses a wrong continuation byte, an overlong
  form, a surrogate and a code point above 0x10ffff (with \<open>UnicodeDecodeError\<close>, a
  \<open>ValueError\<close>).
\<close>

definition is_cont :: "nat \<Rightarrow> bool" where
  "is_cont b = (128 \<le> b \<and> b < 192)"

fun utf8_decode :: "nat list \<Rightarrow> nat list option" where
  "utf8_decode [] = Some []"
| "utf8_decode (b0 # bs) =
     (if b0 < 128 then map_option ((#) b0) (utf8_decode bs)
      else if 194 \<le> b0 \<and> b0 < 224 then
        (case bs of
           b1 # r \<Rightarrow>
             if is_cont b1
             then map_option ((#) ((b0 - 192) * 64 + (b1 - 128))) (utf8_decode r)
             else None
         | _ \<Rightarrow> None)
      else if 224 \<le> b0 \<and> b0 < 240 then
        (case bs of
           b1 # b2 # r \<Rightarrow>
             (let cp = (b0 - 224) * 4096 + (b1 - 128) * 64 + (b2 - 128) in
              if is_cont b1 \<and> is_cont b2 \<and> 2048 \<le> cp \<and> \<not> (55296 \<le> cp \<and> cp < 57344)
              then map_option ((#) cp) (utf8_decode r)
              else None)
         | _ \<Rightarrow> None)
      else if 240 \<le> b0 \<and> b0 < 245 then
        (case bs of
           b1 # b2 # b3 # r \<Rightarrow>
             (let cp = (b0 - 240) * 262144 + (b1 - 128) * 4096 + (b2 - 128) * 64 + (b3 - 128) in
              if is_cont b1 \<and> is_cont b2 \<and> is_cont b3 \<and> 65536 \<le> cp \<and> cp < 1114112
              then map_option ((#) cp) (utf8_decode r)
              else None)
         | _ \<Rightarrow> None)
      else None)"

definition bytes_decode :: "pybytes \<Rightarrow> pystr option" where
  "bytes_decode b = map_option (map chr) (utf8_decode (map of_char b))"

text \<open>
  \<open>_colorize_re_pattern\<close>. The pattern is a value: a \<open>bytes\<close> object is decoded first;
  on a value that is neither \<open>str\<close> nor \<open>bytes\<close> (the constant of a syntax tree can be any)
  \<open>sre_parse.parse\<close> raises \<open>TypeError\<close> when it reads it. \<open>groups\<close> is
  \<open>dict([(num, name) for (name, num) in groupdict.items()])\<close>, where a later item wins.
\<close>

definition colorize_re_pattern ::
  "host \<Rightarrow> PyvalColorizer \<Rightarrow> pyval \<Rightarrow> int \<Rightarrow> ColorizerState \<Rightarrow> outcome"
where
  "colorize_re_pattern h self pat flags state =
     (case (case pat of
              PBytes b \<Rightarrow> (case bytes_decode b of None \<Rightarrow> Inl ValueError | Some s \<Rightarrow> Inr s)
            | PStr s \<Rightarrow> Inr s
            | _ \<Rightarrow> Inl TypeError) of
        Inl e \<Rightarrow> Raised e state
      | Inr s \<Rightarrow>
          (case sre_parse h s flags of
             Inl e \<Rightarrow> Raised e state
           | Inr (tree, groupdict) \<Rightarrow>
               colorize_re_tree self tree state True
                 (rev (map (\<lambda>(name, num). (num, name)) groupdict))))"

text \<open>\<open>sorted(sre_parse.FLAGS.items())\<close>, a table of the standard library.\<close>

definition FLAGS_sorted :: "(char \<times> int) list" where
  "FLAGS_sorted = [(CHR ''L'', 4), (CHR ''a'', 256), (CHR ''i'', 2), (CHR ''m'', 8),
     (CHR ''s'', 16), (CHR ''t'', 1), (CHR ''u'', 32), (CHR ''x'', 64)]"

definition colorize_re_flags :: "PyvalColorizer \<Rightarrow> int \<Rightarrow> ColorizerState \<Rightarrow> outcome" where
  "colorize_re_flags self flags state =
     (if flags \<noteq> 0 then
        (let flags_list = map fst (filter (\<lambda>(c, n). n AND flags \<noteq> 0) FLAGS_sorted);
             flags_str = lit (''(?'' @ flags_list @ '')'')
         in output self flags_str RE_FLAGS_TAG False state)
      else Done state)"

fun pattern_val :: "pattern_src \<Rightarrow> pyval" where
  "pattern_val (StrPattern s) = PStr s"
| "pattern_val (BytesPattern b) = PBytes b"

definition colorize_re ::
  "host \<Rightarrow> PyvalColorizer \<Rightarrow> pattern_src \<Rightarrow> int \<Rightarrow> ColorizerState \<Rightarrow> outcome"
where
  "colorize_re h self pat flags state =
     and_then (output self (lit ''re.compile(r'' @ [Ch (CHR 0x27)]) None False state)
       (\<lambda>state. and_then (colorize_re_flags self flags state)
          (\<lambda>state. and_then (colorize_re_pattern h self (pattern_val pat) flags state)
             (output self (Ch (CHR 0x27) # lit '')'') None False)))"

section \<open>Objects of any other type\<close>

definition is_hex :: "pychar \<Rightarrow> bool" where
  "is_hex c = (c \<in> set (lit ''0123456789abcdefABCDEF''))"

text \<open>
  \<open>GENERIC_OBJECT_RE.search(s)\<close> for the pattern
  \<open>^<(?P<descr>.*) at (?P<addr>0x[0-9a-f]+)>$\<close> with \<open>re.IGNORECASE\<close>: the group
  \<open>descr\<close> of the match, if there is one. The text is read from its end: \<open>$\<close> also
  matches before one last newline, the address is the longest run of hexadecimal digits
  before \<open>>\<close>, and \<open>.\<close> matches no newline. A match always has the group \<open>descr\<close>, so
  the branch of \<open>_colorize\<close> for a match without it has no value to run on.
\<close>

definition generic_object_descr :: "pystr \<Rightarrow> pystr option" where
  "generic_object_descr s =
     (let s1 = (if s \<noteq> [] \<and> last s = newline_char then butlast s else s) in
      case rev s1 of
        [] \<Rightarrow> None
      | c # r \<Rightarrow>
          (let addr = takeWhile is_hex r; rest = dropWhile is_hex r;
               at = rev (take 6 rest); body = rev (drop 6 rest)
           in if c = Ch (CHR ''>'') \<and> addr \<noteq> [] \<and> length at = 6
                 \<and> at ! 0 = Ch (CHR '' '') \<and> at ! 1 \<in> {Ch (CHR ''a''), Ch (CHR ''A'')}
                 \<and> at ! 2 \<in> {Ch (CHR ''t''), Ch (CHR ''T'')} \<and> at ! 3 = Ch (CHR '' '')
                 \<and> at ! 4 = Ch (CHR ''0'') \<and> at ! 5 \<in> {Ch (CHR ''x''), Ch (CHR ''X'')}
                 \<and> body \<noteq> [] \<and> hd body = Ch (CHR ''<'') \<and> newline_char \<notin> set (tl body)
              then Some (tl body) else None))"

text \<open>
  The last branch of \<open>_colorize\<close>: \<open>r\<close> is what \<open>repr(pyval)\<close> does. \<open>KeyboardInterrupt\<close>
  is raised again, any other exception gives the unknown marker.
\<close>

definition colorize_other :: "PyvalColorizer \<Rightarrow> exn + pystr \<Rightarrow> ColorizerState \<Rightarrow> outcome" where
  "colorize_other self r state =
     (case r of
        Inl e \<Rightarrow>
          if e = KeyboardInterrupt then Raised KeyboardInterrupt state
          else Done (append_node UNKNOWN_REPR (state\<lparr>score := score state - 100\<rparr>))
      | Inr pyval_repr \<Rightarrow>
          (case generic_object_descr pyval_repr of
             Some descr \<Rightarrow>
               output self (lit ''<'' @ descr @ lit ''>'') None False
                 (state\<lparr>score := score state - 5\<rparr>)
           | None \<Rightarrow> output self pyval_repr None False state))"

section \<open>Sequences and dictionaries\<close>

text \<open>
  The methods call \<open>self._colorize\<close> and \<open>self._colorize_ast\<close>; here these two are the
  parameters \<open>colorize'\<close> and \<open>colorize_ast'\<close> of each method that calls them, and the
  recursion is tied in \<open>colorize'\<close> and \<open>colorize_ast\<close> below.
\<close>

fun colorize_iter_loop ::
  "(pyval \<Rightarrow> ColorizerState \<Rightarrow> outcome) \<Rightarrow> PyvalColorizer \<Rightarrow> int \<Rightarrow> nat \<Rightarrow> pyval list
     \<Rightarrow> ColorizerState \<Rightarrow> outcome"
where
  "colorize_iter_loop colorize' self indent i [] state = Done state"
| "colorize_iter_loop colorize' self indent i (elt # elts) state =
     and_then (if i \<ge> 1 then insert_comma self indent state else Done state)
       (\<lambda>state. and_then (colorize' elt (append_node WORD_BREAK_OPPORTUNITY state))
          (colorize_iter_loop colorize' self indent (Suc i) elts))"

definition colorize_iter ::
  "(pyval \<Rightarrow> ColorizerState \<Rightarrow> outcome) \<Rightarrow> PyvalColorizer \<Rightarrow> pyval list \<Rightarrow> ColorizerState
     \<Rightarrow> pystr option \<Rightarrow> pystr option \<Rightarrow> outcome"
where
  "colorize_iter colorize' self pyval state prefix' suffix' =
     and_then (case prefix' of Some p \<Rightarrow> output self p GROUP_TAG False state | None \<Rightarrow> Done state)
       (\<lambda>state. and_then (colorize_iter_loop colorize' self (charpos state) 0 pyval state)
          (\<lambda>state. case suffix' of Some s \<Rightarrow> output self s GROUP_TAG False state
                    | None \<Rightarrow> Done state))"

fun colorize_dict_loop ::
  "(pyval \<Rightarrow> ColorizerState \<Rightarrow> outcome) \<Rightarrow> PyvalColorizer \<Rightarrow> int \<Rightarrow> nat
     \<Rightarrow> (pyval \<times> pyval) list \<Rightarrow> ColorizerState \<Rightarrow> outcome"
where
  "colorize_dict_loop colorize' self indent i [] state = Done state"
| "colorize_dict_loop colorize' self indent i ((key, val) # items) state =
     and_then (if i \<ge> 1 then
                 (if linebreakok state
                  then and_then (output self (lit '','') COMMA_TAG False state)
                         (output self (newline_char # replicate (nat indent) (Ch (CHR '' '')))
                            None False)
                  else output self (lit '', '') COMMA_TAG False state)
               else Done state)
       (\<lambda>state. and_then (colorize' key (append_node WORD_BREAK_OPPORTUNITY state))
          (\<lambda>state. and_then (output self (lit '': '') COLON_TAG False state)
             (\<lambda>state. and_then (colorize' val state)
                (colorize_dict_loop colorize' self indent (Suc i) items))))"

definition colorize_dict ::
  "(pyval \<Rightarrow> ColorizerState \<Rightarrow> outcome) \<Rightarrow> PyvalColorizer \<Rightarrow> (pyval \<times> pyval) list
     \<Rightarrow> ColorizerState \<Rightarrow> pystr \<Rightarrow> pystr \<Rightarrow> outcome"
where
  "colorize_dict colorize' self items state prefix' suffix' =
     and_then (output self prefix' GROUP_TAG False state)
       (\<lambda>state. and_then (colorize_dict_loop colorize' self (charpos state) 0 items state)
          (output self suffix' GROUP_TAG False))"

lemma colorize_iter_loop_cong [fundef_cong]:
  assumes "xs = ys" and "\<And>x s. x \<in> set ys \<Longrightarrow> f x s = g x s"
  shows "colorize_iter_loop f self indent i xs state = colorize_iter_loop g self indent i ys state"
  unfolding assms(1) using assms(2)
proof (induction ys arbitrary: i state)
  case Nil
  show ?case by simp
next
  case (Cons y ys)
  have "colorize_iter_loop f self indent (Suc i) ys = colorize_iter_loop g self indent (Suc i) ys"
    using Cons by (intro ext) simp
  moreover have "f y = g y"
    using Cons.prems by (intro ext) simp
  ultimately show ?case by simp
qed

lemma colorize_iter_cong [fundef_cong]:
  assumes "xs = ys" and "\<And>x s. x \<in> set ys \<Longrightarrow> f x s = g x s"
  shows "colorize_iter f self xs state p q = colorize_iter g self ys state p q"
proof -
  have "\<And>ind i. colorize_iter_loop f self ind i xs = colorize_iter_loop g self ind i ys"
    using assms by (intro ext colorize_iter_loop_cong)
  then show ?thesis by (simp add: colorize_iter_def assms(1))
qed

lemma colorize_dict_loop_cong [fundef_cong]:
  assumes "xs = ys"
    and "\<And>k v s. (k, v) \<in> set ys \<Longrightarrow> f k s = g k s"
    and "\<And>k v s. (k, v) \<in> set ys \<Longrightarrow> f v s = g v s"
  shows "colorize_dict_loop f self indent i xs state = colorize_dict_loop g self indent i ys state"
  unfolding assms(1) using assms(2,3)
proof (induction ys arbitrary: i state)
  case Nil
  show ?case by simp
next
  case (Cons y ys)
  obtain k v where y: "y = (k, v)" by (cases y)
  have "colorize_dict_loop f self indent (Suc i) ys = colorize_dict_loop g self indent (Suc i) ys"
  proof (rule ext)
    fix s
    show "colorize_dict_loop f self indent (Suc i) ys s = colorize_dict_loop g self indent (Suc i) ys s"
    proof (rule Cons.IH)
      fix k' v' s' assume "(k', v') \<in> set ys"
      then show "f k' s' = g k' s'" using Cons.prems(1) [of k' v' s'] by simp
    next
      fix k' v' s' assume "(k', v') \<in> set ys"
      then show "f v' s' = g v' s'" using Cons.prems(2) [of k' v' s'] by simp
    qed
  qed
  moreover have "f k = g k"
    using Cons.prems(1) [of k v] y by (intro ext) simp
  moreover have "f v = g v"
    using Cons.prems(2) [of k v] y by (intro ext) simp
  ultimately show ?case by (simp add: y)
qed

lemma colorize_dict_cong [fundef_cong]:
  assumes "xs = ys"
    and "\<And>k v s. (k, v) \<in> set ys \<Longrightarrow> f k s = g k s"
    and "\<And>k v s. (k, v) \<in> set ys \<Longrightarrow> f v s = g v s"
  shows "colorize_dict f self xs state p q = colorize_dict g self ys state p q"
proof -
  have "\<And>ind i. colorize_dict_loop f self ind i xs = colorize_dict_loop g self ind i ys"
    using assms by (intro ext colorize_dict_loop_cong)
  then show ?thesis by (simp add: colorize_dict_def assms(1))
qed

section \<open>Syntax trees\<close>

definition is_Exception :: "exn \<Rightarrow> bool" where
  "is_Exception e = (e \<noteq> KeyboardInterrupt)"

text \<open>\<open>_colorize_ast_generic\<close>: \<open>except Exception\<close> around \<open>astor.to_source\<close>.\<close>

definition colorize_ast_generic :: "host \<Rightarrow> PyvalColorizer \<Rightarrow> pyval \<Rightarrow> ColorizerState \<Rightarrow> outcome" where
  "colorize_ast_generic h self pyval state =
     (case to_source h pyval of
        Inl e \<Rightarrow> if is_Exception e then Done (append_node UNKNOWN_REPR state) else Raised e state
      | Inr source \<Rightarrow> output self source None False state)"

definition colorize_ast_constant ::
  "(pyval \<Rightarrow> ColorizerState \<Rightarrow> outcome) \<Rightarrow> PyvalColorizer \<Rightarrow> pyval \<Rightarrow> ColorizerState \<Rightarrow> outcome"
where
  "colorize_ast_constant colorize' self val state =
     (if val \<noteq> PEllipsis then colorize' val state
      else output self (lit ''...'') ELLIPSIS_TAG False state)"

definition colorize_ast_unary_op ::
  "(pyval \<Rightarrow> ColorizerState \<Rightarrow> outcome) \<Rightarrow> PyvalColorizer \<Rightarrow> unaryop \<Rightarrow> pyval \<Rightarrow> ColorizerState
     \<Rightarrow> outcome"
where
  "colorize_ast_unary_op colorize' self op operand state =
     and_then (case op of
                 USub \<Rightarrow> output self (lit ''-'') None False state
               | UAdd \<Rightarrow> output self (lit ''+'') None False state
               | Not' \<Rightarrow> output self (lit ''not '') None False state
               | Invert \<Rightarrow> output self (lit ''~'') None False state)
       (colorize' operand)"

definition operator_text :: "operator \<Rightarrow> string option" where
  "operator_text op =
     (case op of Sub \<Rightarrow> Some ''-'' | Add \<Rightarrow> Some ''+'' | Mult \<Rightarrow> Some ''*'' | Div \<Rightarrow> Some ''/''
      | FloorDiv \<Rightarrow> Some ''//'' | Mod \<Rightarrow> Some ''%'' | Pow' \<Rightarrow> Some ''**'' | LShift \<Rightarrow> Some ''<<''
      | RShift \<Rightarrow> Some ''>>'' | BitOr \<Rightarrow> Some ''|'' | BitXor \<Rightarrow> Some ''^'' | BitAnd \<Rightarrow> Some ''&''
      | MatMult \<Rightarrow> Some ''@'' | OtherOperator \<Rightarrow> None)"

text \<open>\<open>_colorize_ast_binary_op\<close>: an operator that is none of the thirteen sends the
  whole node to \<open>_colorize_ast_generic\<close>, and the right operand follows.\<close>

definition colorize_ast_binary_op ::
  "host \<Rightarrow> (pyval \<Rightarrow> ColorizerState \<Rightarrow> outcome) \<Rightarrow> PyvalColorizer \<Rightarrow> pyval \<Rightarrow> operator \<Rightarrow> pyval
     \<Rightarrow> ColorizerState \<Rightarrow> outcome"
where
  "colorize_ast_binary_op h colorize' self left op right state =
     and_then (colorize' left state)
       (\<lambda>state. and_then
          (case operator_text op of
             Some t \<Rightarrow> output self (lit t) None False state
           | None \<Rightarrow> colorize_ast_generic h self (BinOp left op right) state)
          (colorize' right))"

fun colorize_ast_bool_op_loop ::
  "(pyval \<Rightarrow> ColorizerState \<Rightarrow> outcome) \<Rightarrow> PyvalColorizer \<Rightarrow> boolop \<Rightarrow> int \<Rightarrow> nat \<Rightarrow> pyval list
     \<Rightarrow> ColorizerState \<Rightarrow> outcome"
where
  "colorize_ast_bool_op_loop colorize' self op maxindex index [] state = Done state"
| "colorize_ast_bool_op_loop colorize' self op maxindex index (val # vals) state =
     and_then (colorize' val state)
       (\<lambda>state. and_then
          (if int index \<noteq> maxindex then
             (case op of And \<Rightarrow> output self (lit '' and '') None False state
              | Or \<Rightarrow> output self (lit '' or '') None False state)
           else Done state)
          (colorize_ast_bool_op_loop colorize' self op maxindex (Suc index) vals))"

definition colorize_ast_bool_op ::
  "(pyval \<Rightarrow> ColorizerState \<Rightarrow> outcome) \<Rightarrow> PyvalColorizer \<Rightarrow> boolop \<Rightarrow> pyval list \<Rightarrow> ColorizerState
     \<Rightarrow> outcome"
where
  "colorize_ast_bool_op colorize' self op vals state =
     colorize_ast_bool_op_loop colorize' self op (int (length vals) - 1) 0 vals state"

definition colorize_ast_name :: "PyvalColorizer \<Rightarrow> pystr \<Rightarrow> ColorizerState \<Rightarrow> outcome" where
  "colorize_ast_name self ident state = output self ident LINK_TAG True state"

text \<open>The loop of \<open>_colorize_ast_attribute\<close> over the chain of attributes: the parts in
  source order, or \<open>None\<close> when the chain does not end in a name.\<close>

fun attribute_parts :: "pyval \<Rightarrow> pystr list \<Rightarrow> pystr list option" where
  "attribute_parts (Attribute node attr) parts = attribute_parts node (parts @ [attr])"
| "attribute_parts (Name ident) parts = Some (rev (parts @ [ident]))"
| "attribute_parts node parts = None"

fun join :: "'a list \<Rightarrow> 'a list list \<Rightarrow> 'a list" where
  "join sep [] = []"
| "join sep [x] = x"
| "join sep (x # y # ys) = x @ sep @ join sep (y # ys)"

definition colorize_ast_attribute :: "host \<Rightarrow> PyvalColorizer \<Rightarrow> pyval \<Rightarrow> ColorizerState \<Rightarrow> outcome" where
  "colorize_ast_attribute h self pyval state =
     (case attribute_parts pyval [] of
        None \<Rightarrow> colorize_ast_generic h self pyval state
      | Some parts \<Rightarrow> output self (join (lit ''.'') parts) LINK_TAG True state)"

fun is_Slice :: "pyval \<Rightarrow> bool" where
  "is_Slice (Slice fs) = True"
| "is_Slice (ExtSlice fs) = True"
| "is_Slice v = False"

definition colorize_ast_subscript ::
  "host \<Rightarrow> (pyval \<Rightarrow> ColorizerState \<Rightarrow> outcome) \<Rightarrow> (pyval \<Rightarrow> ColorizerState \<Rightarrow> outcome)
     \<Rightarrow> PyvalColorizer \<Rightarrow> pyval \<Rightarrow> pyval \<Rightarrow> ColorizerState \<Rightarrow> outcome"
where
  "colorize_ast_subscript h colorize' colorize_ast' self val slice state =
     and_then (colorize' val state)
       (\<lambda>state.
          let sub = (case slice of Index v \<Rightarrow> v | _ \<Rightarrow> slice) in
          and_then (output self (lit ''['') GROUP_TAG False state)
            (\<lambda>state. and_then
               (case sub of
                  Tuple elts \<Rightarrow> multiline (\<lambda>s. colorize_iter colorize' self elts s None None) state
                | _ \<Rightarrow>
                    if is_Slice sub
                    then colorize_ast_generic h self sub (append_node WORD_BREAK_OPPORTUNITY state)
                    else colorize_ast' sub (append_node WORD_BREAK_OPPORTUNITY state))
               (output self (lit '']'') GROUP_TAG False)))"

definition colorize_ast_call_generic ::
  "(pyval \<Rightarrow> ColorizerState \<Rightarrow> outcome) \<Rightarrow> (pyval \<Rightarrow> ColorizerState \<Rightarrow> outcome)
     \<Rightarrow> PyvalColorizer \<Rightarrow> pyval \<Rightarrow> pyval list \<Rightarrow> pyval list \<Rightarrow> ColorizerState \<Rightarrow> outcome"
where
  "colorize_ast_call_generic colorize' colorize_ast' self func args keywords state =
     and_then (colorize_ast' func state)
       (\<lambda>state. and_then (output self (lit ''('') GROUP_TAG False state)
          (\<lambda>state.
             let indent = charpos state in
             and_then (multiline (\<lambda>s. colorize_iter colorize' self args s None None) state)
               (\<lambda>state. and_then
                  (if keywords \<noteq> [] then
                     and_then (if args \<noteq> [] then insert_comma self indent state else Done state)
                       (multiline (\<lambda>s. colorize_iter colorize' self keywords s None None))
                   else Done state)
                  (output self (lit '')'') GROUP_TAG False))))"

subsection \<open>Calls, and the call of \<open>re.compile\<close>\<close>

text \<open>
  Modelled from the spec: \<open>node2dottedname\<close> of \<open>pydoctor.astutils\<close> is not among the
  files. The spec has the callable resolved by attribute-chain analysis to a dotted name,
  which is the walk \<open>_colorize_ast_attribute\<close> does.
\<close>

definition node2dottedname :: "pyval \<Rightarrow> pystr list option" where
  "node2dottedname node = attribute_parts node []"

record BoundArguments =
  arg_pattern :: "pyval option"
  arg_flags :: "pyval option"

text \<open>The named keywords of a call, \<open>{kw.arg: kw.value for kw in call.keywords if kw.arg
  is not None}\<close>, in the order of the list.\<close>

fun keyword_items :: "pyval list \<Rightarrow> (pystr \<times> pyval) list" where
  "keyword_items [] = []"
| "keyword_items (keyword (Some a) v # ks) = (a, v) # keyword_items ks"
| "keyword_items (k # ks) = keyword_items ks"

text \<open>
  Modelled from the spec: \<open>bind_args\<close> of \<open>pydoctor.astutils\<close> is not among the files. The
  spec has the arguments of the call bound against the declared parameters of the
  function, here \<open>re.compile(pattern, flags=0)\<close>, and the binding fail (with \<open>TypeError\<close>,
  the exception the caller handles) when they do not fit: more than two positional
  arguments, a keyword that is no parameter, a parameter given twice, or no pattern. Of two
  keywords of one name the later one counts, as in a dictionary.
\<close>

definition bind_args :: "pyval list \<Rightarrow> pyval list \<Rightarrow> exn + BoundArguments" where
  "bind_args args keywords =
     (let kwargs = keyword_items keywords;
          kw_pattern = map_of (rev kwargs) (lit ''pattern'');
          kw_flags = map_of (rev kwargs) (lit ''flags'')
      in if length args > 2 then Inl TypeError
         else if list_ex (\<lambda>(a, v). a \<noteq> lit ''pattern'' \<and> a \<noteq> lit ''flags'') kwargs
           then Inl TypeError
         else if args \<noteq> [] \<and> kw_pattern \<noteq> None then Inl TypeError
         else if length args = 2 \<and> kw_flags \<noteq> None then Inl TypeError
         else if args = [] \<and> kw_pattern = None then Inl TypeError
         else Inr \<lparr>arg_pattern = (if args \<noteq> [] then Some (hd args) else kw_pattern),
                   arg_flags = (if length args = 2 then Some (args ! 1) else kw_flags)\<rparr>)"

text \<open>
  \<open>_colorize_ast_re\<close>; \<open>func\<close>, \<open>nargs\<close> and \<open>keywords\<close> are the fields of the call node.
\<close>

definition colorize_ast_re ::
  "host \<Rightarrow> (pyval \<Rightarrow> ColorizerState \<Rightarrow> outcome) \<Rightarrow> (pyval \<Rightarrow> ColorizerState \<Rightarrow> outcome)
     \<Rightarrow> PyvalColorizer \<Rightarrow> BoundArguments \<Rightarrow> pyval \<Rightarrow> pyval list \<Rightarrow> pyval list
     \<Rightarrow> ColorizerState \<Rightarrow> outcome"
where
  "colorize_ast_re h colorize' colorize_ast' self args func nargs keywords state =
     (case arg_pattern args of
        Some ast_pattern \<Rightarrow>
          (case ast_pattern of
             Constant pat \<Rightarrow>
               and_then (colorize_ast' func state)
                (\<lambda>state. and_then (output self (lit ''('') GROUP_TAG False state)
                (\<lambda>state.
                   let indent = charpos state in
                   and_then (output self (lit ''r'') None False state)
                    (\<lambda>state. and_then (output self (lit [CHR 0x27]) QUOTE_TAG False state)
                    (\<lambda>state. and_then (colorize_re_pattern h self pat 0 state)
                    (\<lambda>state. and_then (output self (lit [CHR 0x27]) QUOTE_TAG False state)
                    (\<lambda>state. and_then
                       (case arg_flags args of
                          Some ast_flags \<Rightarrow>
                            and_then (insert_comma self indent state) (colorize_ast' ast_flags)
                        | None \<Rightarrow> Done state)
                       (output self (lit '')'') GROUP_TAG False)))))))
           | _ \<Rightarrow> colorize_ast_call_generic colorize' colorize_ast' self func nargs keywords state)
      | None \<Rightarrow> colorize_ast_call_generic colorize' colorize_ast' self func nargs keywords state)"

text \<open>
  \<open>_colorize_ast_call\<close>. The handler of \<open>ValueError\<close> and \<open>re.error\<close> restores the state
  and calls \<open>self._colorize_ast_call_generic(args, node, state)\<close>, one argument more than
  the method takes: the call raises \<open>TypeError\<close> before the method runs.
\<close>

definition colorize_ast_call ::
  "host \<Rightarrow> (pyval \<Rightarrow> ColorizerState \<Rightarrow> outcome) \<Rightarrow> (pyval \<Rightarrow> ColorizerState \<Rightarrow> outcome)
     \<Rightarrow> PyvalColorizer \<Rightarrow> pyval \<Rightarrow> pyval list \<Rightarrow> pyval list \<Rightarrow> ColorizerState \<Rightarrow> outcome"
where
  "colorize_ast_call h colorize' colorize_ast' self func args keywords state =
     (if node2dottedname func = Some [lit ''re'', lit ''compile''] then
        (case bind_args args keywords of
           Inl e \<Rightarrow>
             if e = TypeError
             then colorize_ast_call_generic colorize' colorize_ast' self func args keywords state
             else Raised e state
         | Inr bound \<Rightarrow>
             (let m = mark state in
              case colorize_ast_re h colorize' colorize_ast' self bound func args keywords state of
                Done state' \<Rightarrow> Done state'
              | Raised e state' \<Rightarrow>
                  if e = ValueError \<or> e = re_error
                  then Raised TypeError (restore state' m)
                  else Raised e state'))
      else colorize_ast_call_generic colorize' colorize_ast' self func args keywords state)"

subsection \<open>Congruence rules\<close>

lemma colorize_ast_constant_cong [fundef_cong]:
  assumes "val = val'" and "\<And>s. val' \<noteq> PEllipsis \<Longrightarrow> f val' s = g val' s"
  shows "colorize_ast_constant f self val state = colorize_ast_constant g self val' state"
  using assms by (simp add: colorize_ast_constant_def)

lemma colorize_ast_unary_op_cong [fundef_cong]:
  assumes "operand = operand'" and "\<And>s. f operand' s = g operand' s"
  shows "colorize_ast_unary_op f self op operand state = colorize_ast_unary_op g self op operand' state"
proof -
  have "f operand' = g operand'" using assms(2) by (rule ext)
  then show ?thesis by (simp add: colorize_ast_unary_op_def assms(1))
qed

lemma colorize_ast_binary_op_cong [fundef_cong]:
  assumes "left = left'" and "right = right'"
    and "\<And>s. f left' s = g left' s" and "\<And>s. f right' s = g right' s"
  shows "colorize_ast_binary_op h f self left op right state
       = colorize_ast_binary_op h g self left' op right' state"
proof -
  have "f left' = g left'" using assms(3) by (rule ext)
  moreover have "f right' = g right'" using assms(4) by (rule ext)
  ultimately show ?thesis by (simp add: colorize_ast_binary_op_def assms(1,2))
qed

lemma colorize_ast_bool_op_loop_cong:
  assumes "\<And>x s. x \<in> set ys \<Longrightarrow> f x s = g x s"
  shows "colorize_ast_bool_op_loop f self op m i ys state = colorize_ast_bool_op_loop g self op m i ys state"
  using assms
proof (induction ys arbitrary: i state)
  case Nil
  show ?case by simp
next
  case (Cons y ys)
  have "colorize_ast_bool_op_loop f self op m (Suc i) ys = colorize_ast_bool_op_loop g self op m (Suc i) ys"
  proof (rule ext)
    fix s
    show "colorize_ast_bool_op_loop f self op m (Suc i) ys s = colorize_ast_bool_op_loop g self op m (Suc i) ys s"
      by (rule Cons.IH) (use Cons.prems in simp)
  qed
  moreover have "f y = g y"
    using Cons.prems [of y] by (intro ext) simp
  ultimately show ?case by simp
qed

lemma colorize_ast_bool_op_cong [fundef_cong]:
  assumes "xs = ys" and "\<And>x s. x \<in> set ys \<Longrightarrow> f x s = g x s"
  shows "colorize_ast_bool_op f self op xs state = colorize_ast_bool_op g self op ys state"
  unfolding colorize_ast_bool_op_def assms(1)
  using assms(2) by (rule colorize_ast_bool_op_loop_cong)

lemma size_list_member: "x \<in> set xs \<Longrightarrow> size x \<le> size_list size xs"
  by (rule size_list_estimation') auto

text \<open>The values the colorizer of a subscript and of a call goes into are fields of the
  node, or fields of its fields: they are smaller than the node.\<close>

lemma colorize_ast_subscript_cong [fundef_cong]:
  assumes "val = val'" and "slice = slice'"
    and "\<And>x s. size x < size (Subscript val' slice') \<Longrightarrow> f x s = g x s"
    and "\<And>x s. size x < size (Subscript val' slice') \<Longrightarrow> fa x s = ga x s"
  shows "colorize_ast_subscript h f fa self val slice state
       = colorize_ast_subscript h g ga self val' slice' state"
proof -
  have 1: "f val' = g val'" using assms(3) by (intro ext) simp
  have 2: "(case slice' of Index v \<Rightarrow> v | _ \<Rightarrow> slice') = sub \<Longrightarrow> fa sub = ga sub" for sub
    using assms(4) by (intro ext) (auto split: pyval.splits)
  have 3: "(case slice' of Index v \<Rightarrow> v | _ \<Rightarrow> slice') = Tuple elts \<Longrightarrow>
      colorize_iter f self elts s None None = colorize_iter g self elts s None None" for elts s
  proof (rule colorize_iter_cong)
    fix x s'
    assume a: "(case slice' of Index v \<Rightarrow> v | _ \<Rightarrow> slice') = Tuple elts" and b: "x \<in> set elts"
    have "size x < size (Tuple elts)"
      using size_list_member [OF b] by simp
    moreover have "size (Tuple elts) \<le> size slice'"
      using a by (auto split: pyval.splits)
    ultimately show "f x s' = g x s'" using assms(3) by simp
  qed simp
  show ?thesis
    unfolding colorize_ast_subscript_def assms(1,2) 1 Let_def
    by (auto intro!: and_then_cong multiline_cong simp: 2 3 split: pyval.splits)
qed

lemma colorize_ast_call_generic_cong:
  assumes "\<And>s. fa func s = ga func s"
    and "\<And>x s. x \<in> set args \<union> set keywords \<Longrightarrow> f x s = g x s"
  shows "colorize_ast_call_generic f fa self func args keywords state
       = colorize_ast_call_generic g ga self func args keywords state"
proof -
  have 1: "fa func = ga func" using assms(1) by (rule ext)
  have 2: "(\<lambda>s. colorize_iter f self args s None None) = (\<lambda>s. colorize_iter g self args s None None)"
    by (intro ext colorize_iter_cong) (use assms(2) in auto)
  have 3: "(\<lambda>s. colorize_iter f self keywords s None None) = (\<lambda>s. colorize_iter g self keywords s None None)"
    by (intro ext colorize_iter_cong) (use assms(2) in auto)
  show ?thesis
    unfolding colorize_ast_call_generic_def 1 2 3 ..
qed

lemma keyword_items_size:
  "(a, v) \<in> set (keyword_items ks) \<Longrightarrow> size v < size_list size ks"
  by (induction ks rule: keyword_items.induct) auto

lemma bind_args_flags_size:
  assumes "bind_args args kws = Inr bound" and "arg_flags bound = Some fl"
  shows "size fl < size (Call func args kws)"
proof -
  have kw: "map_of (rev (keyword_items kws)) k = Some v \<Longrightarrow> size v < size_list size kws" for k v
    using keyword_items_size [of k v kws] by (auto dest: map_of_SomeD)
  have "fl \<in> set args \<or> map_of (rev (keyword_items kws)) (lit ''flags'') = Some fl"
    using assms by (auto simp: bind_args_def Let_def split: if_splits)
  then show ?thesis
  proof
    assume "fl \<in> set args"
    then have "size fl \<le> size_list size args" by (rule size_list_member)
    then show ?thesis by simp
  next
    assume "map_of (rev (keyword_items kws)) (lit ''flags'') = Some fl"
    then have "size fl < size_list size kws" by (rule kw)
    then show ?thesis by simp
  qed
qed

lemma colorize_ast_call_cong [fundef_cong]:
  assumes "func = func'" and "args = args'" and "keywords = keywords'"
    and "\<And>x s. size x < size (Call func' args' keywords') \<Longrightarrow> f x s = g x s"
    and "\<And>x s. size x < size (Call func' args' keywords') \<Longrightarrow> fa x s = ga x s"
  shows "colorize_ast_call h f fa self func args keywords state
       = colorize_ast_call h g ga self func' args' keywords' state"
proof -
  have el: "x \<in> set args' \<union> set keywords' \<Longrightarrow> size x < size (Call func' args' keywords')" for x
    using size_list_member [of x args'] size_list_member [of x keywords'] by auto
  have gen: "colorize_ast_call_generic f fa self func' args' keywords' s
           = colorize_ast_call_generic g ga self func' args' keywords' s" for s
    by (rule colorize_ast_call_generic_cong) (use assms(4,5) el in auto)
  have 1: "fa func' = ga func'" using assms(5) by (intro ext) simp
  have re: "bind_args args' keywords' = Inr bound \<Longrightarrow>
      colorize_ast_re h f fa self bound func' args' keywords' s
    = colorize_ast_re h g ga self bound func' args' keywords' s" for bound s
  proof -
    assume b: "bind_args args' keywords' = Inr bound"
    have "arg_flags bound = Some fl \<Longrightarrow> fa fl = ga fl" for fl
      using bind_args_flags_size [OF b, of fl func'] assms(5) by (intro ext) simp
    then have fl: "(case arg_flags bound of
                      Some ast_flags \<Rightarrow> and_then (insert_comma self ind st) (fa ast_flags)
                    | None \<Rightarrow> Done st)
                 = (case arg_flags bound of
                      Some ast_flags \<Rightarrow> and_then (insert_comma self ind st) (ga ast_flags)
                    | None \<Rightarrow> Done st)" for ind st
      by (cases "arg_flags bound") auto
    show ?thesis
      unfolding colorize_ast_re_def 1 Let_def
      by (simp add: gen fl split: option.splits pyval.splits)
  qed
  show ?thesis
    unfolding colorize_ast_call_def assms(1,2,3) Let_def
    by (auto simp: gen re split: sum.splits)
qed

section \<open>The dispatch on the value\<close>

text \<open>
  \<open>_colorize\<close> and \<open>_colorize_ast\<close>. The tests of \<open>_colorize\<close> are on disjoint types, so
  after the test for the built-in constants they are one case distinction; the syntax-tree
  nodes are those with \<open>is_ast\<close>. \<open>repr\<close> of the \<open>Ellipsis\<close> object is its name.
\<close>

lemma size_list_pair_member:
  "(k, v) \<in> set xs \<Longrightarrow>
     size k < size_list (size_prod size size) xs \<and> size v < size_list (size_prod size size) xs"
  by (induction xs) auto

lemma size_list_zip_member:
  "(k, v) \<in> set (zip xs ys) \<Longrightarrow> size k \<le> size_list size xs \<and> size v \<le> size_list size ys"
  using set_zip_leftD [of k v xs ys] set_zip_rightD [of k v xs ys]
    size_list_member [of k xs] size_list_member [of v ys] by simp

function colorize' :: "host \<Rightarrow> PyvalColorizer \<Rightarrow> pyval \<Rightarrow> ColorizerState \<Rightarrow> outcome"
  and colorize_ast :: "host \<Rightarrow> PyvalColorizer \<Rightarrow> pyval \<Rightarrow> ColorizerState \<Rightarrow> outcome"
where
  "colorize' h self pyval state0 =
     (let state = state0\<lparr>score := score state0 + 1\<rparr> in
      if in_builtin_constants pyval then output self (str_of pyval) CONST_TAG True state
      else if is_ast pyval then colorize_ast h self pyval state
      else
        (case pyval of
           PInt n \<Rightarrow> output self (str_of pyval) NUMBER_TAG False state
         | PFloat x \<Rightarrow> output self (str_of pyval) NUMBER_TAG False state
         | PComplex x \<Rightarrow> output self (str_of pyval) NUMBER_TAG False state
         | PStr s \<Rightarrow> colorize_str self s state [] str_escape newline_char
         | PBytes b \<Rightarrow> colorize_str self b state (lit ''b'') bytes_escape (CHR 0x0A)
         | PTuple elts \<Rightarrow>
             multiline (\<lambda>s. colorize_iter (colorize' h self) self elts s
                              (Some (lit ''('')) (Some (lit '')''))) state
         | PSet elts \<Rightarrow>
             multiline (\<lambda>s. colorize_iter (colorize' h self) self elts s
                              (Some (lit ''set(['')) (Some (lit ''])''))) state
         | PFrozenset elts \<Rightarrow>
             multiline (\<lambda>s. colorize_iter (colorize' h self) self elts s
                              (Some (lit ''frozenset(['')) (Some (lit ''])''))) state
         | PDict items \<Rightarrow>
             multiline (\<lambda>s. colorize_dict (colorize' h self) self items s
                              (lit ''{'') (lit ''}'')) state
         | PList elts \<Rightarrow>
             multiline (\<lambda>s. colorize_iter (colorize' h self) self elts s
                              (Some (lit ''['')) (Some (lit '']''))) state
         | PPattern pat flags \<Rightarrow> colorize_re h self pat flags state
         | PObject r \<Rightarrow> colorize_other self r state
         | _ \<Rightarrow> colorize_other self (Inr (lit ''Ellipsis'')) state))"
| "colorize_ast h self pyval state =
     (case pyval of
        Constant val \<Rightarrow> colorize_ast_constant (colorize' h self) self val state
      | UnaryOp op operand \<Rightarrow> colorize_ast_unary_op (colorize' h self) self op operand state
      | BinOp left op right \<Rightarrow>
          colorize_ast_binary_op h (colorize' h self) self left op right state
      | BoolOp op vals \<Rightarrow> colorize_ast_bool_op (colorize' h self) self op vals state
      | List elts \<Rightarrow>
          multiline (\<lambda>s. colorize_iter (colorize' h self) self elts s
                           (Some (lit ''['')) (Some (lit '']''))) state
      | Tuple elts \<Rightarrow>
          multiline (\<lambda>s. colorize_iter (colorize' h self) self elts s
                           (Some (lit ''('')) (Some (lit '')''))) state
      | Set elts \<Rightarrow>
          multiline (\<lambda>s. colorize_iter (colorize' h self) self elts s
                           (Some (lit ''set(['')) (Some (lit ''])''))) state
      | Dict keys vals \<Rightarrow>
          multiline (\<lambda>s. colorize_dict (colorize' h self) self (zip keys vals) s
                           (lit ''{'') (lit ''}'')) state
      | Name ident \<Rightarrow> colorize_ast_name self ident state
      | Attribute val attr \<Rightarrow> colorize_ast_attribute h self pyval state
      | Subscript val slice \<Rightarrow>
          colorize_ast_subscript h (colorize' h self) (colorize_ast h self) self val slice state
      | Call func args kws \<Rightarrow>
          colorize_ast_call h (colorize' h self) (colorize_ast h self) self func args kws state
      | Starred val \<Rightarrow>
          and_then (output self (lit ''*'') None False state) (colorize_ast h self val)
      | keyword arg val \<Rightarrow>
          and_then
            (case arg of
               Some a \<Rightarrow> and_then (output self a None False state)
                           (output self (lit ''='') None False)
             | None \<Rightarrow> output self (lit ''**'') None False state)
            (colorize_ast h self val)
      | _ \<Rightarrow> colorize_ast_generic h self pyval state)"
  by pat_completeness auto
termination
proof (relation "measure (\<lambda>x. case x of
         Inl (h, self, pyval, state) \<Rightarrow> 2 * size pyval + 1
       | Inr (h, self, pyval, state) \<Rightarrow> 2 * size pyval)", goal_cases)
  case 1
  show ?case by simp
qed (auto dest: size_list_member size_list_pair_member size_list_zip_member)


declare colorize'.simps [simp del] colorize_ast.simps [simp del]

section \<open>The entry point\<close>

record ColorizedPyvalRepr =
  document :: "fragment list"
  repr_score :: int
  is_complete :: bool

text \<open>
  \<open>colorize\<close>: the result, or the exception that leaves the call. Only \<open>_Maxlines\<close> and
  \<open>_Linebreak\<close> are handled. \<open>state.result[-1]\<close> raises \<open>IndexError\<close> on an empty list.
\<close>

definition colorize ::
  "host \<Rightarrow> PyvalColorizer \<Rightarrow> pyval \<Rightarrow> int option \<Rightarrow> exn + ColorizedPyvalRepr"
where
  "colorize h self pyval min_score =
     (let state = init_state\<lparr>linebreakok := self_linebreakok self\<rparr> in
      case (case colorize' h self pyval state of
              Done state \<Rightarrow> Inr (state, True)
            | Raised e state \<Rightarrow>
                if e = Maxlines \<or> e = Linebreak then
                  (if self_linebreakok self
                   then Inr (state\<lparr>result := result state @ [NEWLINE, ELLIPSIS]\<rparr>, False)
                   else if result state = [] then Inl IndexError
                   else Inr (state\<lparr>result :=
                          trim_result (if last (result state) = LINEWRAP
                                       then butlast (result state) else result state) 3
                          @ [ELLIPSIS]\<rparr>, False))
                else Inl e) of
        Inl e \<Rightarrow> Inl e
      | Inr (state, complete) \<Rightarrow>
          (let state = (if (case min_score of Some m \<Rightarrow> score state < m | None \<Rightarrow> False)
                        then state\<lparr>result := [UNKNOWN_REPR]\<rparr> else state)
           in Inr \<lparr>document = result state, repr_score = score state, is_complete = complete\<rparr>))"

text \<open>\<open>colorize_pyval\<close> and \<open>colorize_inline_pyval\<close>, with their default arguments.\<close>

definition colorize_pyval ::
  "host \<Rightarrow> pyval \<Rightarrow> int option \<Rightarrow> int option \<Rightarrow> int \<Rightarrow> bool \<Rightarrow> exn + ColorizedPyvalRepr"
where
  "colorize_pyval h pyval min_score linelen' maxlines' linebreakok' =
     colorize h \<lparr>linelen = linelen', maxlines = maxlines', self_linebreakok = linebreakok'\<rparr>
       pyval min_score"

definition colorize_inline_pyval :: "host \<Rightarrow> pyval \<Rightarrow> exn + ColorizedPyvalRepr" where
  "colorize_inline_pyval h pyval = colorize_pyval h pyval None None 7 False"

section \<open>Predicates of the statements\<close>

text \<open>The two signals of the line budget, \<open>_Maxlines\<close> and \<open>_Linebreak\<close>.\<close>

definition budget :: "exn \<Rightarrow> bool" where
  "budget e = (e = Maxlines \<or> e = Linebreak)"

text \<open>
  A relation between the state a step starts from and its outcome that holds of the steps
  every method is built from: it holds of no step at all and of two steps in a row; of
  \<open>_output\<close>; of appending the word-break node or the unknown marker; of a change of the
  score; and of \<open>_multiline\<close> of a function it holds of.
\<close>

definition sound_rel0 :: "(ColorizerState \<Rightarrow> outcome \<Rightarrow> bool) \<Rightarrow> bool" where
  "sound_rel0 R =
     ((\<forall>s. R s (Done s))
      \<and> (\<forall>s s' out. R s (Done s') \<longrightarrow> R s' out \<longrightarrow> R s out)
      \<and> (\<forall>self t css link s. R s (output self t css link s))
      \<and> (\<forall>s. R s (Done (append_node WORD_BREAK_OPPORTUNITY s)))
      \<and> (\<forall>s. R s (Done (append_node UNKNOWN_REPR s)))
      \<and> (\<forall>k s. R s (Done (s\<lparr>score := k\<rparr>)))
      \<and> (\<forall>f s. (\<forall>s1. R s1 (f s1)) \<longrightarrow> R s (multiline f s)))"

text \<open>
  Such a relation that also holds of raising an exception that is not a signal of the
  line budget, and of the restore and \<open>TypeError\<close> in \<open>_colorize_ast_call\<close>, holds of
  \<open>_colorize\<close> on every value (theorem \<open>rel_colorize\<close>).
\<close>

definition sound_rel :: "(ColorizerState \<Rightarrow> outcome \<Rightarrow> bool) \<Rightarrow> bool" where
  "sound_rel R =
     (sound_rel0 R
      \<and> (\<forall>e s. \<not> budget e \<longrightarrow> R s (Raised e s))
      \<and> (\<forall>e s s'. R s (Raised e s') \<longrightarrow> R s (Raised TypeError (restore s' (mark s)))))"

text \<open>The pattern parser of the standard library does not raise the two signals, which
  are private classes of the module.\<close>

definition host_ok :: "host \<Rightarrow> bool" where
  "host_ok h = (\<forall>p f. case sre_parse h p f of Inl e \<Rightarrow> \<not> budget e | Inr t \<Rightarrow> True)"

text \<open>The fragments of the outcome are those of the start and more.\<close>

definition extends :: "ColorizerState \<Rightarrow> outcome \<Rightarrow> bool" where
  "extends s out = prefix (result s) (result (state_of out))"

text \<open>A host whose parser refuses every pattern and whose unparser fails; a colorizer
  with no room on a line.\<close>

definition example_host :: host where
  "example_host = \<lparr>sre_parse = (\<lambda>p f. Inl re_error), to_source = (\<lambda>v. Inl OtherException)\<rparr>"

definition narrow :: PyvalColorizer where
  "narrow = \<lparr>linelen = Some 0, maxlines = 7, self_linebreakok = True\<rparr>"



fun plain :: "pyval \<Rightarrow> bool" where
  "plain PNone = True"
| "plain (PBool b) = True"
| "plain PNotImplemented = True"
| "plain PEllipsis = True"
| "plain (PInt n) = True"
| "plain (PFloat x) = True"
| "plain (PComplex x) = True"
| "plain (PStr s) = True"
| "plain (PBytes b) = True"
| "plain (PTuple elts) = list_all plain elts"
| "plain (PSet elts) = list_all plain elts"
| "plain (PFrozenset elts) = list_all plain elts"
| "plain (PDict items) = list_all (\<lambda>(k, v). plain k \<and> plain v) items"
| "plain (PList elts) = list_all plain elts"
| "plain (PObject r) = (r \<noteq> Inl KeyboardInterrupt)"
| "plain v = False"






section \<open>Properties of every step of the colorizer\<close>

lemma sound_rel0D: "sound_rel R \<Longrightarrow> sound_rel0 R"
  by (simp add: sound_rel_def)

lemma rel_Done: "sound_rel0 R \<Longrightarrow> R s (Done s)"
  by (simp add: sound_rel0_def)

lemma rel_trans: "sound_rel0 R \<Longrightarrow> R s (Done s') \<Longrightarrow> R s' out \<Longrightarrow> R s out"
  unfolding sound_rel0_def by blast

lemma rel_output: "sound_rel0 R \<Longrightarrow> R s (output self t css link s)"
  by (simp add: sound_rel0_def)

lemma rel_output_bytes: "sound_rel0 R \<Longrightarrow> R s (output_bytes self t css link s)"
  by (simp add: output_bytes_def rel_output)

lemma rel_wbr: "sound_rel0 R \<Longrightarrow> R s (Done (append_node WORD_BREAK_OPPORTUNITY s))"
  by (simp add: sound_rel0_def)

lemma rel_unknown: "sound_rel0 R \<Longrightarrow> R s (Done (append_node UNKNOWN_REPR s))"
  by (simp add: sound_rel0_def)

lemma rel_score: "sound_rel0 R \<Longrightarrow> R s (Done (s\<lparr>score := k\<rparr>))"
  by (simp add: sound_rel0_def)

lemma rel_multiline: "sound_rel0 R \<Longrightarrow> (\<And>s1. R s1 (f s1)) \<Longrightarrow> R s (multiline f s)"
  unfolding sound_rel0_def by blast

lemma rel_Raised: "sound_rel R \<Longrightarrow> \<not> budget e \<Longrightarrow> R s (Raised e s)"
  unfolding sound_rel_def by blast

lemma rel_restore:
  "sound_rel R \<Longrightarrow> R s (Raised e s') \<Longrightarrow> R s (Raised TypeError (restore s' (mark s)))"
  unfolding sound_rel_def by blast

lemma rel_and_then:
  assumes "sound_rel0 R" and "R s m" and "\<And>s'. m = Done s' \<Longrightarrow> R s' (f s')"
  shows "R s (and_then m f)"
proof (cases m)
  case (Done s')
  then show ?thesis using assms rel_trans [of R s s' "f s'"] by simp
next
  case (Raised e s')
  then show ?thesis using assms(2) by simp
qed

lemma rel_score_then: "sound_rel0 R \<Longrightarrow> R (s\<lparr>score := k\<rparr>) out \<Longrightarrow> R s out"
  using rel_trans [of R s "s\<lparr>score := k\<rparr>" out] rel_score [of R s k] by simp

lemma rel_wbr_then: "sound_rel0 R \<Longrightarrow> R (append_node WORD_BREAK_OPPORTUNITY s) out \<Longrightarrow> R s out"
  using rel_trans [of R s "append_node WORD_BREAK_OPPORTUNITY s" out] rel_wbr [of R s] by simp

lemmas rel_basic = rel_Done rel_output rel_output_bytes rel_wbr rel_unknown rel_score rel_and_then

lemma rel_insert_comma:
  assumes sr: "sound_rel0 R"
  shows "R s (insert_comma self indent s)"
  unfolding insert_comma_def by (auto intro!: rel_basic [OF sr])

lemma rel_colorize_str_lines:
  assumes sr: "sound_rel0 R"
  shows "R s (colorize_str_lines self esc i ls s)"
  by (induction ls arbitrary: i s) (auto intro!: rel_basic [OF sr])

lemma rel_colorize_str:
  assumes sr: "sound_rel0 R"
  shows "R s (colorize_str self v s p esc nl)"
  unfolding colorize_str_def Let_def
  by (auto intro!: rel_basic [OF sr] rel_colorize_str_lines [OF sr])

lemma rel_colorize_other:
  assumes sr: "sound_rel R"
  shows "R s (colorize_other self r s)"
proof (cases r)
  case (Inl e)
  show ?thesis
  proof (cases "e = KeyboardInterrupt")
    case True
    then show ?thesis using Inl rel_Raised [OF sr, of KeyboardInterrupt s]
      by (simp add: colorize_other_def budget_def)
  next
    case False
    have "R s (Done (append_node UNKNOWN_REPR (s\<lparr>score := score s - 100\<rparr>)))"
      by (rule rel_score_then [OF sound_rel0D [OF sr]]) (rule rel_unknown [OF sound_rel0D [OF sr]])
    then show ?thesis using Inl False by (simp add: colorize_other_def)
  qed
next
  case (Inr t)
  show ?thesis
  proof (cases "generic_object_descr t")
    case None
    then show ?thesis using Inr by (simp add: colorize_other_def rel_output [OF sound_rel0D [OF sr]])
  next
    case (Some d)
    have "R s (output self (lit ''<'' @ d @ lit ''>'') None False (s\<lparr>score := score s - 5\<rparr>))"
      by (rule rel_score_then [OF sound_rel0D [OF sr]]) (rule rel_output [OF sound_rel0D [OF sr]])
    then show ?thesis using Inr Some by (simp add: colorize_other_def)
  qed
qed

lemma rel_colorize_iter_loop:
  assumes sr: "sound_rel0 R" and el: "\<And>x s. x \<in> set xs \<Longrightarrow> R s (f x s)"
  shows "R s (colorize_iter_loop f self indent i xs s)"
  using el
proof (induction xs arbitrary: i s)
  case Nil
  show ?case by (simp add: rel_Done [OF sr])
next
  case (Cons x xs)
  have 1: "R s' (f x (append_node WORD_BREAK_OPPORTUNITY s'))" for s'
    by (rule rel_wbr_then [OF sr]) (rule Cons.prems, simp)
  have 2: "R s' (colorize_iter_loop f self indent (Suc i) xs s')" for s'
    by (rule Cons.IH) (rule Cons.prems, simp)
  show ?case
    by (auto intro!: rel_basic [OF sr] rel_insert_comma [OF sr] 1 2)
qed

lemma rel_colorize_iter:
  assumes sr: "sound_rel0 R" and el: "\<And>x s. x \<in> set xs \<Longrightarrow> R s (f x s)"
  shows "R s (colorize_iter f self xs s p q)"
  unfolding colorize_iter_def
  by (auto intro!: rel_basic [OF sr] rel_colorize_iter_loop [OF sr] el split: option.splits)

lemma rel_colorize_dict_loop:
  assumes sr: "sound_rel0 R"
    and el: "\<And>k v s. (k, v) \<in> set xs \<Longrightarrow> R s (f k s) \<and> R s (f v s)"
  shows "R s (colorize_dict_loop f self indent i xs s)"
  using el
proof (induction xs arbitrary: i s)
  case Nil
  show ?case by (simp add: rel_Done [OF sr])
next
  case (Cons x xs)
  obtain k v where x: "x = (k, v)" by (cases x)
  have kv: "R s' (f k s')" "R s' (f v s')" for s'
    using Cons.prems [of k v s'] x by simp_all
  have 1: "R s' (f k (append_node WORD_BREAK_OPPORTUNITY s'))" for s'
    by (rule rel_wbr_then [OF sr]) (rule kv)
  have 2: "R s' (colorize_dict_loop f self indent (Suc i) xs s')" for s'
    by (rule Cons.IH) (rule Cons.prems, simp)
  show ?case
    unfolding x by (auto intro!: rel_basic [OF sr] 1 2 kv)
qed

lemma rel_colorize_dict:
  assumes sr: "sound_rel0 R"
    and el: "\<And>k v s. (k, v) \<in> set xs \<Longrightarrow> R s (f k s) \<and> R s (f v s)"
  shows "R s (colorize_dict f self xs s p q)"
  unfolding colorize_dict_def
  by (auto intro!: rel_basic [OF sr] rel_colorize_dict_loop [OF sr] el)

lemma rel_colorize_re_literal:
  assumes sr: "sound_rel R"
  shows "R s (colorize_re_literal self n s)"
  by (simp add: colorize_re_literal_def rel_output [OF sound_rel0D [OF sr]])

lemma rel_colorize_re_tree:
  assumes sr: "sound_rel R"
  shows "R s (colorize_re_tree self tree s noparen groups)"
    and "R s (colorize_re_elts self elts s groups)"
    and "R s (colorize_re_elt self elt s groups)"
    and "R s (colorize_re_branch self i items s groups)"
proof (induction self tree s noparen groups and self elts s groups and self elt s groups
         and self i items s groups
       rule: colorize_re_tree_colorize_re_elts_colorize_re_elt_colorize_re_branch.induct)
  case (1 self tree state noparen groups)
  then show ?case
    unfolding colorize_re_tree.simps [of self tree state noparen groups]
    by (auto intro!: rel_basic [OF sound_rel0D [OF sr]])
qed (auto simp: budget_def intro!: rel_basic [OF sound_rel0D [OF sr]] rel_colorize_re_literal [OF sr]
       rel_Raised [OF sr] split: option.splits)

lemma rel_colorize_re_pattern:
  assumes sr: "sound_rel R" and ok: "\<And>p f e. sre_parse h p f = Inl e \<Longrightarrow> \<not> budget e"
  shows "R s (colorize_re_pattern h self pat flags s)"
  unfolding colorize_re_pattern_def
  by (auto simp: budget_def intro!: rel_Raised [OF sr] rel_colorize_re_tree(1) [OF sr]
      dest: ok split: pyval.splits option.splits sum.splits)

lemma rel_colorize_re_flags:
  assumes sr: "sound_rel R"
  shows "R s (colorize_re_flags self flags s)"
  unfolding colorize_re_flags_def Let_def
  by (auto intro!: rel_basic [OF sound_rel0D [OF sr]])

lemma rel_colorize_re:
  assumes sr: "sound_rel R" and ok: "\<And>p f e. sre_parse h p f = Inl e \<Longrightarrow> \<not> budget e"
  shows "R s (colorize_re h self pat flags s)"
  unfolding colorize_re_def
  by (auto intro!: rel_basic [OF sound_rel0D [OF sr]] rel_colorize_re_flags [OF sr]
      rel_colorize_re_pattern [OF sr ok])

lemma rel_colorize_ast_generic:
  assumes sr: "sound_rel R"
  shows "R s (colorize_ast_generic h self v s)"
  unfolding colorize_ast_generic_def
  by (auto simp: budget_def is_Exception_def intro!: rel_basic [OF sound_rel0D [OF sr]] rel_Raised [OF sr]
      split: sum.splits)

lemma rel_colorize_ast_constant:
  assumes sr: "sound_rel R" and el: "\<And>s. v \<noteq> PEllipsis \<Longrightarrow> R s (f v s)"
  shows "R s (colorize_ast_constant f self v s)"
  unfolding colorize_ast_constant_def
  by (auto intro!: rel_basic [OF sound_rel0D [OF sr]] el)

lemma rel_colorize_ast_unary_op:
  assumes sr: "sound_rel R" and el: "\<And>s. R s (f v s)"
  shows "R s (colorize_ast_unary_op f self op v s)"
  unfolding colorize_ast_unary_op_def
  by (auto intro!: rel_basic [OF sound_rel0D [OF sr]] el split: unaryop.splits)

lemma rel_colorize_ast_binary_op:
  assumes sr: "sound_rel R" and el: "\<And>s. R s (f l s)" "\<And>s. R s (f r s)"
  shows "R s (colorize_ast_binary_op h f self l op r s)"
  unfolding colorize_ast_binary_op_def
  by (auto intro!: rel_basic [OF sound_rel0D [OF sr]] rel_colorize_ast_generic [OF sr] el split: option.splits)

lemma rel_colorize_ast_bool_op_loop:
  assumes sr: "sound_rel R" and el: "\<And>x s. x \<in> set xs \<Longrightarrow> R s (f x s)"
  shows "R s (colorize_ast_bool_op_loop f self op m i xs s)"
  using el
proof (induction xs arbitrary: i s)
  case Nil
  show ?case by (simp add: rel_Done [OF sound_rel0D [OF sr]])
next
  case (Cons x xs)
  have 1: "R s' (f x s')" for s'
    by (rule Cons.prems) simp
  have 2: "R s' (colorize_ast_bool_op_loop f self op m (Suc i) xs s')" for s'
    by (rule Cons.IH) (rule Cons.prems, simp)
  show ?case
    by (auto intro!: rel_basic [OF sound_rel0D [OF sr]] 1 2 split: boolop.splits)
qed

lemma rel_colorize_ast_bool_op:
  assumes sr: "sound_rel R" and el: "\<And>x s. x \<in> set xs \<Longrightarrow> R s (f x s)"
  shows "R s (colorize_ast_bool_op f self op xs s)"
  unfolding colorize_ast_bool_op_def
  by (rule rel_colorize_ast_bool_op_loop [OF sr el])

lemma rel_colorize_ast_name:
  assumes sr: "sound_rel R"
  shows "R s (colorize_ast_name self n s)"
  by (simp add: colorize_ast_name_def rel_output [OF sound_rel0D [OF sr]])

lemma rel_colorize_ast_attribute:
  assumes sr: "sound_rel R"
  shows "R s (colorize_ast_attribute h self v s)"
  unfolding colorize_ast_attribute_def
  by (auto intro!: rel_basic [OF sound_rel0D [OF sr]] rel_colorize_ast_generic [OF sr] split: option.splits)

lemma rel_multiline_iter:
  assumes sr: "sound_rel0 R" and el: "\<And>x s. x \<in> set xs \<Longrightarrow> R s (f x s)"
  shows "R s (multiline (\<lambda>s. colorize_iter f self xs s p q) s)"
  by (rule rel_multiline [OF sr]) (rule rel_colorize_iter [OF sr el])

lemma rel_multiline_dict:
  assumes sr: "sound_rel0 R"
    and el: "\<And>k v s. (k, v) \<in> set xs \<Longrightarrow> R s (f k s) \<and> R s (f v s)"
  shows "R s (multiline (\<lambda>s. colorize_dict f self xs s p q) s)"
  by (rule rel_multiline [OF sr]) (rule rel_colorize_dict [OF sr el])

lemma rel_colorize_ast_subscript:
  assumes sr: "sound_rel R"
    and el: "\<And>x s. size x < size (Subscript v sl) \<Longrightarrow> R s (f x s)"
    and ela: "\<And>x s. size x < size (Subscript v sl) \<Longrightarrow> R s (fa x s)"
  shows "R s (colorize_ast_subscript h f fa self v sl s)"
proof -
  define sub where "sub = (case sl of Index x \<Rightarrow> x | _ \<Rightarrow> sl)"
  have sub: "size sub \<le> size sl"
    by (auto simp: sub_def split: pyval.splits)
  have 1: "R s' (f v s')" for s'
    by (rule el) simp
  have 2: "R s' (fa sub (append_node WORD_BREAK_OPPORTUNITY s'))" for s'
    by (rule rel_wbr_then [OF sound_rel0D [OF sr]], rule ela) (use sub in simp)
  have 3: "R s' (colorize_ast_generic h self sub (append_node WORD_BREAK_OPPORTUNITY s'))" for s'
    by (rule rel_wbr_then [OF sound_rel0D [OF sr]]) (rule rel_colorize_ast_generic [OF sr])
  have 4: "sub = Tuple elts \<Longrightarrow> R s' (multiline (\<lambda>s. colorize_iter f self elts s None None) s')"
    for elts s'
  proof (rule rel_multiline_iter [OF sound_rel0D [OF sr]])
    fix x s1 assume "sub = Tuple elts" "x \<in> set elts"
    then have "size x < size (Subscript v sl)"
      using size_list_member [of x elts] sub by simp
    then show "R s1 (f x s1)" by (rule el)
  qed
  have 5: "R s' (case sub of
                   Tuple elts \<Rightarrow> multiline (\<lambda>s. colorize_iter f self elts s None None) s'
                 | _ \<Rightarrow> if is_Slice sub
                        then colorize_ast_generic h self sub (append_node WORD_BREAK_OPPORTUNITY s')
                        else fa sub (append_node WORD_BREAK_OPPORTUNITY s'))" for s'
    using 2 [of s'] 3 [of s'] 4 [of _ s'] by (cases sub) simp_all
  show ?thesis
    unfolding colorize_ast_subscript_def Let_def sub_def [symmetric]
    by (intro rel_and_then [OF sound_rel0D [OF sr]] rel_output [OF sound_rel0D [OF sr]] 1 5)
qed

lemma rel_colorize_ast_call_generic:
  assumes sr: "sound_rel R"
    and el: "\<And>x s. x \<in> set args \<union> set kws \<Longrightarrow> R s (f x s)"
    and ela: "\<And>s. R s (fa func s)"
  shows "R s (colorize_ast_call_generic f fa self func args kws s)"
  unfolding colorize_ast_call_generic_def Let_def
  by (auto intro!: rel_basic [OF sound_rel0D [OF sr]] rel_insert_comma [OF sound_rel0D [OF sr]] rel_multiline_iter [OF sound_rel0D [OF sr]] el ela)

lemma rel_colorize_ast_re:
  assumes sr: "sound_rel R" and ok: "\<And>p f e. sre_parse h p f = Inl e \<Longrightarrow> \<not> budget e"
    and el: "\<And>x s. x \<in> set args \<union> set kws \<Longrightarrow> R s (f x s)"
    and ela: "\<And>s. R s (fa func s)"
    and elf: "\<And>fl s. arg_flags bound = Some fl \<Longrightarrow> R s (fa fl s)"
  shows "R s (colorize_ast_re h f fa self bound func args kws s)"
proof -
  have gen: "R s (colorize_ast_call_generic f fa self func args kws s)"
    by (rule rel_colorize_ast_call_generic [OF sr]) (rule el, assumption, rule ela)
  show ?thesis
    unfolding colorize_ast_re_def Let_def
    by (auto intro!: rel_basic [OF sound_rel0D [OF sr]] rel_insert_comma [OF sound_rel0D [OF sr]] rel_colorize_re_pattern [OF sr ok]
        gen ela elf split: option.splits pyval.splits)
qed

lemma rel_colorize_ast_call:
  assumes sr: "sound_rel R" and ok: "\<And>p f e. sre_parse h p f = Inl e \<Longrightarrow> \<not> budget e"
    and el: "\<And>x s. size x < size (Call func args kws) \<Longrightarrow> R s (f x s)"
    and ela: "\<And>x s. size x < size (Call func args kws) \<Longrightarrow> R s (fa x s)"
  shows "R s (colorize_ast_call h f fa self func args kws s)"
proof -
  have el': "x \<in> set args \<union> set kws \<Longrightarrow> R s' (f x s')" for x s'
    using size_list_member [of x args] size_list_member [of x kws] by (intro el) auto
  have ela': "R s' (fa func s')" for s'
    by (rule ela) simp
  have gen: "R s (colorize_ast_call_generic f fa self func args kws s)"
    by (rule rel_colorize_ast_call_generic [OF sr]) (rule el', assumption, rule ela')
  have re: "R s (colorize_ast_re h f fa self bound func args kws s)"
    if b: "bind_args args kws = Inr bound" for bound
  proof (rule rel_colorize_ast_re [OF sr ok])
    fix fl s' assume "arg_flags bound = Some fl"
    then show "R s' (fa fl s')" using bind_args_flags_size [OF b] by (intro ela)
  qed (assumption, rule el', assumption, rule ela')
  show ?thesis
  proof (cases "node2dottedname func = Some [lit ''re'', lit ''compile'']")
    case False
    then show ?thesis using gen by (simp add: colorize_ast_call_def)
  next
    case True
    show ?thesis
    proof (cases "bind_args args kws")
      case (Inl e)
      then have "e = TypeError" by (auto simp: bind_args_def Let_def split: if_splits)
      then show ?thesis using True Inl gen by (simp add: colorize_ast_call_def)
    next
      case (Inr bound)
      note r = re [OF Inr]
      show ?thesis
      proof (cases "colorize_ast_re h f fa self bound func args kws s")
        case (Done s')
        then show ?thesis using True Inr r by (simp add: colorize_ast_call_def)
      next
        case (Raised e s')
        have "R s (Raised TypeError (restore s' (mark s)))"
          using r Raised rel_restore [OF sr, of s e s'] by simp
        then show ?thesis using True Inr r Raised by (simp add: colorize_ast_call_def)
      qed
    qed
  qed
qed

lemma host_okD: "host_ok h \<Longrightarrow> sre_parse h p f = Inl e \<Longrightarrow> \<not> budget e"
  unfolding host_ok_def by (metis old.sum.simps(5))

theorem rel_colorize:
  assumes sr: "sound_rel R"
  shows "host_ok h \<Longrightarrow> R s (colorize' h self v s)"
    and "host_ok h \<Longrightarrow> R s (colorize_ast h self v s)"
proof (induction h self v s and h self v s rule: colorize'_colorize_ast.induct)
  case (1 h self pyval state0)
  note ok = host_okD [OF "1.prems"]
  note I = rel_basic [OF sound_rel0D [OF sr]] rel_colorize_str [OF sound_rel0D [OF sr]] rel_colorize_re [OF sr ok]
    rel_colorize_other [OF sr] rel_multiline_iter [OF sound_rel0D [OF sr]] rel_multiline_dict [OF sound_rel0D [OF sr]]
  show ?case
    unfolding colorize'.simps [of h self pyval state0] Let_def
    apply (rule rel_score_then [OF sound_rel0D [OF sr], where s = state0 and k = "score state0 + 1"])
    apply (cases pyval)
    using 1
                        apply (auto intro!: I)
    done
next
  case (2 h self pyval state)
  note ok = host_okD [OF "2.prems"]
  note I = rel_basic [OF sound_rel0D [OF sr]] rel_multiline_iter [OF sound_rel0D [OF sr]] rel_multiline_dict [OF sound_rel0D [OF sr]]
    rel_colorize_ast_generic [OF sr] rel_colorize_ast_constant [OF sr]
    rel_colorize_ast_unary_op [OF sr] rel_colorize_ast_binary_op [OF sr]
    rel_colorize_ast_bool_op [OF sr] rel_colorize_ast_name [OF sr]
    rel_colorize_ast_attribute [OF sr] rel_colorize_ast_subscript [OF sr]
    rel_colorize_ast_call [OF sr ok]
  show ?case
    unfolding colorize_ast.simps [of h self pyval state]
    apply (cases pyval)
    using 2
                        apply (auto intro!: I split: option.splits)
    done
qed

section \<open>The result only grows\<close>

lemma restore_mark: "prefix (result s) (result s') \<Longrightarrow> restore s' (mark s) = s"
  by (cases s) (auto simp: restore_def mark_def prefix_def)

lemma result_start_line: "prefix (result s) (result (start_line i s))"
  by (simp add: start_line_def)

lemma result_emit: "result (emit css link seg s) = result s @ [make_element css link seg]"
  by (simp add: emit_def)

lemma result_wrap: "result (wrap css seg s) = result s @ [make_element css False seg, LINEWRAP]"
  by (simp add: wrap_def)

lemma output_loop_extends:
  "prefix (result s) (result (state_of (output_loop self css link i segs s)))"
proof (induction self css link i segs s rule: output_loop.induct)
  case (1 self css link i state)
  show ?case by simp
next
  case (2 self css link i segment segments state)
  have a: "prefix (result state) (result (emit css link segment (start_line i state)))"
    using result_start_line [of state i] by (auto simp: result_emit prefix_def)
  have b: "prefix (result state) (result (wrap css seg (start_line i state)))" for seg
    using result_start_line [of state i] by (auto simp: result_wrap prefix_def)
  show ?case
    unfolding output_loop.simps(2) [of self css link i segment segments state]
    using 2 a b by (auto intro: prefix_order.trans)
qed

lemma extends_output: "extends s (output self t css link s)"
  by (simp add: extends_def output_def output_loop_extends)

lemma sound_rel_extends: "sound_rel extends"
  unfolding sound_rel_def sound_rel0_def
proof (intro conjI allI impI)
  fix f s assume f: "\<forall>s1. extends s1 (f s1)"
  show "extends s (multiline f s)"
  proof (cases "f (s\<lparr>linebreakok := False\<rparr>)")
    case (Done s')
    then show ?thesis using f [rule_format, of "s\<lparr>linebreakok := False\<rparr>"]
      by (simp add: multiline_def extends_def)
  next
    case (Raised e s')
    then have p: "prefix (result s) (result s')"
      using f [rule_format, of "s\<lparr>linebreakok := False\<rparr>"] by (simp add: extends_def)
    show ?thesis
      using Raised f [rule_format, of s] p
      by (simp add: multiline_def extends_def restore_mark)
  qed
next
  fix e s s' assume "extends s (Raised e s')"
  then show "extends s (Raised TypeError (restore s' (mark s)))"
    by (simp add: extends_def restore_mark)
qed (auto simp: extends_def append_node_def extends_output [unfolded extends_def]
       intro: prefix_order.trans)

theorem colorize_extends:
  "host_ok h \<Longrightarrow> extends s (colorize' h self v s)"
  by (rule rel_colorize(1) [OF sound_rel_extends])

section \<open>Evaluating the output function\<close>

lemma split_on_no_delim: "d \<notin> set s \<Longrightarrow> split_on d s = [s]"
  by (induction s) auto

lemma start_line_0: "start_line 0 s = s"
  by (simp add: start_line_def)

lemma output_fits:
  "newline_char \<notin> set t \<Longrightarrow> fits self link s t \<Longrightarrow> output self t css link s = Done (emit css link t s)"
  by (simp add: output_def split_on_no_delim output_loop.simps(2) start_line_0)

lemma host_ok_example: "host_ok example_host"
  by (simp add: host_ok_def example_host_def budget_def)

text \<open>
  Claim C10: with a minimum score, \<open>colorize\<close> returns what it returns without one,
  except that the document is the single unknown marker when the score is below the
  minimum; the score and the completeness flag are those of the colorization, and an
  exception leaves the call with a minimum score exactly when it does without.
\<close>

theorem colorize_min_score_frame:
  "colorize h self pyval (Some m) =
     (case colorize h self pyval None of
        Inl e \<Rightarrow> Inl e
      | Inr r \<Rightarrow> Inr (r\<lparr>document := (if repr_score r < m then [UNKNOWN_REPR] else document r)\<rparr>))"
  by (simp add: colorize_def Let_def split: outcome.splits sum.splits prod.splits)

text \<open>
  Claim C5: \<open>_multiline\<close> on a rendering function of a container (\<open>_colorize_iter\<close> or
  \<open>_colorize_dict\<close> with any arguments) first runs it with line breaks disallowed. When
  that run returns, the caller's flag is put back. When it raises \<open>_Linebreak\<close> and the
  caller's flag was false, the signal is raised on. When it raises \<open>_Linebreak\<close> and the
  caller's flag was true, the restored state is exactly the state before the attempt
  (fragments, column, line, flag and score), and the result is that of the same function
  run on it, with line breaks allowed. \<open>_Maxlines\<close> is raised on.
\<close>

theorem multiline_compact_first:
  assumes "host_ok h"
    and "func = (\<lambda>s. colorize_iter (colorize' h self) self elts s pre suf)
       \<or> func = (\<lambda>s. colorize_dict (colorize' h self) self items s pre' suf')"
  shows "(\<forall>s'. func (state\<lparr>linebreakok := False\<rparr>) = Done s'
            \<longrightarrow> multiline func state = Done (s'\<lparr>linebreakok := linebreakok state\<rparr>))
       \<and> (\<forall>s'. func (state\<lparr>linebreakok := False\<rparr>) = Raised Linebreak s' \<and> \<not> linebreakok state
            \<longrightarrow> multiline func state = Raised Linebreak s')
       \<and> (\<forall>s'. func (state\<lparr>linebreakok := False\<rparr>) = Raised Linebreak s' \<and> linebreakok state
            \<longrightarrow> restore s' (mark state) = state \<and> multiline func state = func state)
       \<and> (\<forall>s'. func (state\<lparr>linebreakok := False\<rparr>) = Raised Maxlines s'
            \<longrightarrow> multiline func state = Raised Maxlines s')"
proof -
  have el: "extends s (colorize' h self x s)" for x s
    by (rule colorize_extends [OF assms(1)])
  have ext: "extends s (func s)" for s
    using assms(2)
  proof
    assume "func = (\<lambda>s. colorize_iter (colorize' h self) self elts s pre suf)"
    then show ?thesis using rel_colorize_iter [OF sound_rel0D [OF sound_rel_extends], of elts "colorize' h self"] el
      by simp
  next
    assume "func = (\<lambda>s. colorize_dict (colorize' h self) self items s pre' suf')"
    then show ?thesis using rel_colorize_dict [OF sound_rel0D [OF sound_rel_extends], of items "colorize' h self"] el
      by simp
  qed
  have r: "func (state\<lparr>linebreakok := False\<rparr>) = Raised e s' \<Longrightarrow> restore s' (mark state) = state" for e s'
    using ext [of "state\<lparr>linebreakok := False\<rparr>"] by (simp add: extends_def restore_mark)
  show ?thesis
    by (auto simp: multiline_def r)
qed

theorem multiline_compact_first_witness:
  "host_ok example_host
   \<and> colorize_iter (colorize' example_host narrow) narrow [] (init_state\<lparr>linebreakok := False\<rparr>)
        (Some (lit ''['')) (Some (lit '']''))
      = Raised Linebreak (init_state\<lparr>linebreakok := False, result := [Text [], LINEWRAP]\<rparr>)
   \<and> linebreakok init_state
   \<and> restore (init_state\<lparr>linebreakok := False, result := [Text [], LINEWRAP]\<rparr>) (mark init_state)
       = init_state
   \<and> multiline (\<lambda>s. colorize_iter (colorize' example_host narrow) narrow [] s
          (Some (lit ''['')) (Some (lit '']''))) init_state
       = colorize_iter (colorize' example_host narrow) narrow [] init_state
          (Some (lit ''['')) (Some (lit '']''))"
proof -
  let ?f = "\<lambda>s. colorize_iter (colorize' example_host narrow) narrow [] s
          (Some (lit ''['')) (Some (lit '']''))"
  have ev: "?f (init_state\<lparr>linebreakok := False\<rparr>)
      = Raised Linebreak (init_state\<lparr>linebreakok := False, result := [Text [], LINEWRAP]\<rparr>)"
    by (simp add: colorize_iter_def output_def lit_def newline_char_def output_loop.simps(2)
        fits_def start_line_def narrow_def init_state_def split_point_def wrap_def
        slice_from_def slice_to_def make_element_def GROUP_TAG_def)
  have lb: "linebreakok init_state" by (simp add: init_state_def)
  show ?thesis
    using multiline_compact_first [OF host_ok_example, of ?f narrow "[]" "Some (lit ''['')"
        "Some (lit '']'')" "[]" "[]" "[]" init_state] ev lb host_ok_example
    by simp
qed

section \<open>A signal of the line budget is raised after a fragment\<close>






lemma plain_not_ast: "plain v \<Longrightarrow> \<not> is_ast v"
  by (cases v) auto










lemma chr_of_char: "chr (of_char c) = Ch c"
  by (simp add: chr_def)


lemma chr_98: "chr 98 = Ch (CHR ''b'')"
  using chr_of_char [of "CHR ''b''"] by simp


lemma re_literal_text_98: "re_literal_text 98 = lit ''b''"
  by (simp add: re_literal_text_def chr_98 Let_def lit_def special_chars_def)








end
